theory Spec2Isabelle
  imports Main
begin

section \<open>Repository references (internal/kickoff/repository.go)\<close>

text \<open>
  \<open>RepoRef\<close> is the struct of internal/kickoff/repository.go: the optional local name,
  the URL of a remote repository, the path of the local repository (for a remote one the
  directory of the local cache) and the revision to check out.
\<close>

record RepoRef =
  Name :: string
  URL :: string
  Path :: string
  Revision :: string

text \<open>The zero value of the struct; a composite literal sets the fields it names.\<close>

definition RepoRef_zero :: RepoRef where
  "RepoRef_zero = \<lparr>Name = [], URL = [], Path = [], Revision = []\<rparr>"

text \<open>
  The fields of Go's \<open>net/url.URL\<close>. The parsers read \<open>Host\<close>, \<open>Path\<close> and
  \<open>RawQuery\<close>, clear \<open>RawQuery\<close> and format the value again; the other fields only
  travel from \<open>url.Parse\<close> to \<open>URL.String\<close>. \<open>uUser\<close> is \<open>None\<close> for a nil
  \<open>*Userinfo\<close>, otherwise the user name and the password if one was set.
\<close>

record url =
  uScheme :: string
  uOpaque :: string
  uUser :: "(string \<times> string option) option"
  uHost :: string
  uPath :: string
  uRawPath :: string
  uOmitHost :: bool
  uForceQuery :: bool
  uRawQuery :: string
  uFragment :: string
  uRawFragment :: string

text \<open>\<open>url.Values\<close> is \<open>map[string][]string\<close>.\<close>

type_synonym url_Values = "string \<rightharpoonup> string list"

text \<open>
  What the two parsers call and the sources do not define: the functions of the Go
  standard library (\<open>net/url\<close>, \<open>path/filepath\<close>), the helper \<open>homedir.Expand\<close>
  of internal/homedir, and the two package variables that hold the platform specific
  cache directory, \<open>kickoff.LocalRepositoryCacheDir\<close> (declared outside the sources) and
  \<open>repository.LocalCache\<close> (set by \<open>configdir.LocalCache\<close> when the process starts).
  They are parameters of the model. A Go \<open>error\<close> of one of them is its message.
\<close>

record deps =
  url_Parse :: "string \<Rightarrow> string + url"
  url_ParseQuery :: "string \<Rightarrow> string + url_Values"
  url_PathEscape :: "string \<Rightarrow> string"
  url_String :: "url \<Rightarrow> string"
  filepath_Join :: "string list \<Rightarrow> string"
  homedir_Expand :: "string \<Rightarrow> string + string"
  LocalRepositoryCacheDir :: string
  LocalCache :: string

text \<open>
  The errors of the parsers and of \<open>NewNamed\<close>: the two wrapped errors built with
  \<open>fmt.Errorf\<close>, \<open>invalid repo URL\<close> and \<open>invalid URL query\<close> (each with the quoted
  input and the wrapped cause; the spec calls them \<open>InvalidLocatorError\<close> and
  \<open>InvalidQueryError\<close>), and an error of a callee that is returned as it is.
\<close>

datatype error =
    InvalidRepoURL string string
  | InvalidURLQuery string string
  | Passed string

text \<open>\<open>func (r *RepoRef) String() string\<close>\<close>

definition RepoRef_String :: "RepoRef \<Rightarrow> string" where
  "RepoRef_String r =
     (if URL r = [] then Path r
      else if Revision r = [] then URL r
      else URL r @ ''?revision='' @ Revision r)"

definition IsEmpty :: "RepoRef \<Rightarrow> bool" where
  "IsEmpty r \<longleftrightarrow> URL r = [] \<and> Path r = []"

definition IsRemote :: "RepoRef \<Rightarrow> bool" where
  "IsRemote r \<longleftrightarrow> URL r \<noteq> []"

text \<open>
  The revision both parsers take from the parsed query: the first value of the key
  \<open>revision\<close> when the key is present with at least one value, and \<open>master\<close> when
  that leaves the revision empty.
\<close>

definition query_revision :: "url_Values \<Rightarrow> string" where
  "query_revision query =
     (let revision = (case query ''revision'' of
                        Some (r # rs) \<Rightarrow> r
                      | _ \<Rightarrow> [])
      in if revision = [] then ''master'' else revision)"

text \<open>\<open>buildLocalCacheDir\<close> of package kickoff (internal/kickoff/repository.go).\<close>

definition kickoff_buildLocalCacheDir :: "deps \<Rightarrow> string \<Rightarrow> string \<Rightarrow> string \<Rightarrow> string" where
  "kickoff_buildLocalCacheDir d host path revision =
     (let revision' = url_PathEscape d revision
      in filepath_Join d [LocalRepositoryCacheDir d, host, path @ ''@'' @ revision'])"

text \<open>\<open>ParseRepoRef\<close> of package kickoff.\<close>

definition ParseRepoRef :: "deps \<Rightarrow> string \<Rightarrow> error + RepoRef" where
  "ParseRepoRef d rawurl =
     (case url_Parse d rawurl of
        Inl err \<Rightarrow> Inl (InvalidRepoURL rawurl err)
      | Inr u \<Rightarrow>
          if uHost u = [] then
            (case homedir_Expand d (uPath u) of
               Inl err \<Rightarrow> Inl (Passed err)
             | Inr path \<Rightarrow> Inr (RepoRef_zero\<lparr>Path := path\<rparr>))
          else
            (case url_ParseQuery d (uRawQuery u) of
               Inl err \<Rightarrow> Inl (InvalidURLQuery (uRawQuery u) err)
             | Inr query \<Rightarrow>
                 let revision = query_revision query;
                     u' = u\<lparr>uRawQuery := []\<rparr>
                 in Inr (RepoRef_zero
                      \<lparr>Path := kickoff_buildLocalCacheDir d (uHost u') (uPath u') revision,
                       URL := url_String d u',
                       Revision := revision\<rparr>)))"

section \<open>Repository resolution (internal/repository/repo.go)\<close>

text \<open>\<open>buildLocalCacheDir\<close> of package repository.\<close>

definition repository_buildLocalCacheDir :: "deps \<Rightarrow> string \<Rightarrow> string \<Rightarrow> string \<Rightarrow> string" where
  "repository_buildLocalCacheDir d host path revision =
     (let revision' = url_PathEscape d revision
      in filepath_Join d [LocalCache d, host, path @ ''@'' @ revision'])"

text \<open>\<open>ParseURL\<close> of package repository.\<close>

definition ParseURL :: "deps \<Rightarrow> string \<Rightarrow> error + RepoRef" where
  "ParseURL d rawurl =
     (case url_Parse d rawurl of
        Inl err \<Rightarrow> Inl (InvalidRepoURL rawurl err)
      | Inr u \<Rightarrow>
          if uHost u = [] then
            (case homedir_Expand d (uPath u) of
               Inl err \<Rightarrow> Inl (Passed err)
             | Inr path \<Rightarrow> Inr (RepoRef_zero\<lparr>Path := path\<rparr>))
          else
            (case url_ParseQuery d (uRawQuery u) of
               Inl err \<Rightarrow> Inl (InvalidURLQuery (uRawQuery u) err)
             | Inr query \<Rightarrow>
                 let revision = query_revision query;
                     u' = u\<lparr>uRawQuery := []\<rparr>
                 in Inr (RepoRef_zero
                      \<lparr>Path := repository_buildLocalCacheDir d (uHost u') (uPath u') revision,
                       URL := url_String d u',
                       Revision := revision\<rparr>)))"

text \<open>
  Modelled from the spec: the type of \<open>repoCache\<close> with its \<open>get\<close> and \<open>set\<close>, and the
  constructors \<open>NewRemoteRepository\<close> and \<open>NewLocalRepository\<close>, are not among the
  sources. The spec describes a process-wide cache keyed by the pair of name and
  locator; it is a map here, \<open>get\<close> is the lookup and \<open>set\<close> the update. The two
  constructors are parameters: each takes the reference and may fail; whatever they do
  outside the cache (a remote repository is fetched into its cache directory) is a change
  of \<open>world\<close>. \<open>'r\<close> is the repository instance that the interface value points to.
\<close>

type_synonym cacheKey = "string \<times> string"

record ('r, 'w) resolver =
  repoCache :: "cacheKey \<rightharpoonup> 'r"
  world :: 'w

record ('r, 'w) constructors =
  NewRemoteRepository :: "RepoRef \<Rightarrow> 'w \<Rightarrow> (error + 'r) \<times> 'w"
  NewLocalRepository :: "RepoRef \<Rightarrow> 'w \<Rightarrow> (error + 'r) \<times> 'w"

text \<open>
  \<open>NewNamed\<close>: a hit in the cache returns at once; otherwise the locator is parsed, the
  name is set, the repository is constructed, and only a repository that was constructed
  without error is stored.
\<close>

definition NewNamed ::
  "deps \<Rightarrow> ('r, 'w) constructors \<Rightarrow> string \<Rightarrow> string \<Rightarrow> ('r, 'w) resolver
     \<Rightarrow> (error + 'r) \<times> ('r, 'w) resolver" where
  "NewNamed d c name url st =
     (let key = (name, url) in
      case repoCache st key of
        Some repo \<Rightarrow> (Inr repo, st)
      | None \<Rightarrow>
          (case ParseURL d url of
             Inl err \<Rightarrow> (Inl err, st)
           | Inr info0 \<Rightarrow>
               let info = info0\<lparr>Name := name\<rparr>;
                   made = (if IsRemote info then NewRemoteRepository c info (world st)
                           else NewLocalRepository c info (world st))
               in (case fst made of
                     Inl err \<Rightarrow> (Inl err, st\<lparr>world := snd made\<rparr>)
                   | Inr repo \<Rightarrow>
                       (Inr repo, st\<lparr>world := snd made,
                                       repoCache := (repoCache st)(key \<mapsto> repo)\<rparr>))))"

text \<open>\<open>New\<close> is \<open>NewNamed\<close> with the empty name.\<close>

definition New ::
  "deps \<Rightarrow> ('r, 'w) constructors \<Rightarrow> string \<Rightarrow> ('r, 'w) resolver
     \<Rightarrow> (error + 'r) \<times> ('r, 'w) resolver" where
  "New d c url st = NewNamed d c [] url st"

text \<open>
  A run of the process: the calls of \<open>NewNamed\<close> it makes, one after the other; the
  results are dropped, the cache and the world are handed on.
\<close>

fun NewNamed_calls ::
  "deps \<Rightarrow> ('r, 'w) constructors \<Rightarrow> cacheKey list \<Rightarrow> ('r, 'w) resolver \<Rightarrow> ('r, 'w) resolver" where
  "NewNamed_calls d c [] st = st"
| "NewNamed_calls d c ((name, url) # ks) st =
     NewNamed_calls d c ks (snd (NewNamed d c name url st))"

section \<open>The Go library functions the parsers call\<close>

text \<open>
  An executable instance of the parameters, used to evaluate the parsers on concrete
  locators. The functions of \<open>net/url\<close> and \<open>path/filepath\<close> follow the Go standard
  library (Go 1.19 and later, Unix paths); strings are byte strings, as in Go. Error
  messages are those of the library, except that quoting does not escape unprintable
  bytes.
\<close>

subsection \<open>Bytes and strings\<close>

definition lower_letters :: string where
  "lower_letters = ''abcdefghijklmnopqrstuvwxyz''"

definition upper_letters :: string where
  "upper_letters = ''ABCDEFGHIJKLMNOPQRSTUVWXYZ''"

definition digits :: string where
  "digits = ''0123456789''"

definition is_letter :: "char \<Rightarrow> bool" where
  "is_letter c \<longleftrightarrow> c \<in> set lower_letters \<or> c \<in> set upper_letters"

definition is_digit :: "char \<Rightarrow> bool" where
  "is_digit c \<longleftrightarrow> c \<in> set digits"

definition byte_ToLower :: "char \<Rightarrow> char" where
  "byte_ToLower c = (case map_of (zip upper_letters lower_letters) c of Some l \<Rightarrow> l | None \<Rightarrow> c)"

definition quote :: "string \<Rightarrow> string" where
  "quote s = [CHR 0x22] @ s @ [CHR 0x22]"

text \<open>\<open>strings.HasPrefix\<close> and \<open>strings.HasSuffix\<close>.\<close>

definition HasPrefix :: "string \<Rightarrow> string \<Rightarrow> bool" where
  "HasPrefix s p \<longleftrightarrow> take (length p) s = p"

definition HasSuffix :: "string \<Rightarrow> string \<Rightarrow> bool" where
  "HasSuffix s p \<longleftrightarrow> length p \<le> length s \<and> drop (length s - length p) s = p"

text \<open>
  \<open>strings.Cut\<close> with a separator of one byte: the text before and after the first
  separator; without a separator the whole string and the empty string.
\<close>

definition Cut :: "string \<Rightarrow> char \<Rightarrow> string \<times> string" where
  "Cut s sep = (takeWhile (\<lambda>c. c \<noteq> sep) s, drop 1 (dropWhile (\<lambda>c. c \<noteq> sep) s))"

text \<open>\<open>strings.Split\<close> with a separator of one byte.\<close>

fun Split :: "char \<Rightarrow> string \<Rightarrow> string list" where
  "Split sep [] = [[]]"
| "Split sep (c # cs) =
     (if c = sep then [] # Split sep cs
      else (case Split sep cs of p # ps \<Rightarrow> (c # p) # ps | [] \<Rightarrow> [[c]]))"

text \<open>\<open>strings.Join\<close> with the separator \<open>/\<close>.\<close>

fun Join_slash :: "string list \<Rightarrow> string" where
  "Join_slash [] = []"
| "Join_slash [e] = e"
| "Join_slash (e # es) = e @ ''/'' @ Join_slash es"

text \<open>\<open>strings.Index\<close>: the position of the first occurrence of \<open>p\<close> in \<open>s\<close>.\<close>

fun Index :: "string \<Rightarrow> string \<Rightarrow> nat option" where
  "Index [] p = (if p = [] then Some 0 else None)"
| "Index (c # cs) p =
     (if take (length p) (c # cs) = p then Some 0
      else map_option Suc (Index cs p))"

subsection \<open>Escaping (net/url)\<close>

datatype encoding =
    encodePath
  | encodePathSegment
  | encodeHost
  | encodeZone
  | encodeUserPassword
  | encodeQueryComponent
  | encodeFragment

definition hexdigits :: string where
  "hexdigits = ''0123456789abcdef''"

definition upperhex :: string where
  "upperhex = ''0123456789ABCDEF''"

definition ishex :: "char \<Rightarrow> bool" where
  "ishex c \<longleftrightarrow> c \<in> set hexdigits \<or> c \<in> set ''ABCDEF''"

definition unhex :: "char \<Rightarrow> nat" where
  "unhex c =
     (case map_of (zip (hexdigits @ ''ABCDEF'')
                       [0, 1, 2, 3, 4, 5, 6, 7, 8, 9, 10, 11, 12, 13, 14, 15, 10, 11, 12, 13, 14, 15]) c of
        Some n \<Rightarrow> n
      | None \<Rightarrow> 0)"

definition shouldEscape :: "char \<Rightarrow> encoding \<Rightarrow> bool" where
  "shouldEscape c mode =
     (if is_letter c \<or> is_digit c then False
      else if (mode = encodeHost \<or> mode = encodeZone)
              \<and> c \<in> set ([CHR 0x22, CHR 0x27] @ ''!$&()*+,;=:[]<>'') then False
      else if c \<in> set ''-_.~'' then False
      else if c \<in> set ''$&+,/:;=?@'' \<and> mode = encodePath then c = CHR ''?''
      else if c \<in> set ''$&+,/:;=?@'' \<and> mode = encodePathSegment then c \<in> set ''/;,?''
      else if c \<in> set ''$&+,/:;=?@'' \<and> mode = encodeUserPassword then c \<in> set ''@/?:''
      else if c \<in> set ''$&+,/:;=?@'' \<and> mode = encodeQueryComponent then True
      else if c \<in> set ''$&+,/:;=?@'' \<and> mode = encodeFragment then False
      else if mode = encodeFragment \<and> c \<in> set ''!()*'' then False
      else True)"

text \<open>
  \<open>unescape\<close> first checks that every \<open>%\<close> starts a well-formed escape (and, in a
  host, that the bytes are allowed there), then decodes.
\<close>

fun unescape_check :: "encoding \<Rightarrow> string \<Rightarrow> string option" where
  "unescape_check mode [] = None"
| "unescape_check mode (c # cs) =
     (if c = CHR ''%'' then
        (case cs of
           h1 # h2 # rest \<Rightarrow>
             if \<not> (ishex h1 \<and> ishex h2) then
               Some (''invalid URL escape '' @ quote [c, h1, h2])
             else if mode = encodeHost \<and> unhex h1 < 8 \<and> [c, h1, h2] \<noteq> ''%25'' then
               Some (''invalid URL escape '' @ quote [c, h1, h2])
             else if mode = encodeZone \<and> [c, h1, h2] \<noteq> ''%25''
                     \<and> char_of (unhex h1 * 16 + unhex h2) \<noteq> CHR '' ''
                     \<and> shouldEscape (char_of (unhex h1 * 16 + unhex h2)) encodeHost then
               Some (''invalid URL escape '' @ quote [c, h1, h2])
             else unescape_check mode rest
         | _ \<Rightarrow> Some (''invalid URL escape '' @ quote (c # cs)))
      else if (mode = encodeHost \<or> mode = encodeZone) \<and> (of_char c :: nat) < 128
              \<and> shouldEscape c encodeHost then
        Some (''invalid character '' @ quote [c] @ '' in host name'')
      else unescape_check mode cs)"

fun unescape_decode :: "encoding \<Rightarrow> string \<Rightarrow> string" where
  "unescape_decode mode [] = []"
| "unescape_decode mode (c # cs) =
     (if c = CHR ''%'' then
        (case cs of
           h1 # h2 # rest \<Rightarrow> char_of (unhex h1 * 16 + unhex h2) # unescape_decode mode rest
         | _ \<Rightarrow> [c])
      else if c = CHR ''+'' \<and> mode = encodeQueryComponent then CHR '' '' # unescape_decode mode cs
      else c # unescape_decode mode cs)"

definition unescape :: "string \<Rightarrow> encoding \<Rightarrow> string + string" where
  "unescape s mode =
     (case unescape_check mode s of
        Some err \<Rightarrow> Inl err
      | None \<Rightarrow> Inr (unescape_decode mode s))"

definition escape_byte :: "encoding \<Rightarrow> char \<Rightarrow> string" where
  "escape_byte mode c =
     (if c = CHR '' '' \<and> mode = encodeQueryComponent then ''+''
      else if shouldEscape c mode then
        [CHR ''%'', upperhex ! ((of_char c :: nat) div 16), upperhex ! ((of_char c :: nat) mod 16)]
      else [c])"

definition escape :: "string \<Rightarrow> encoding \<Rightarrow> string" where
  "escape s mode = concat (map (escape_byte mode) s)"

definition PathEscape :: "string \<Rightarrow> string" where
  "PathEscape s = escape s encodePathSegment"

definition QueryUnescape :: "string \<Rightarrow> string + string" where
  "QueryUnescape s = unescape s encodeQueryComponent"

subsection \<open>Parsing a URL (net/url)\<close>

definition url_zero :: url where
  "url_zero = \<lparr>uScheme = [], uOpaque = [], uUser = None, uHost = [], uPath = [], uRawPath = [],
     uOmitHost = False, uForceQuery = False, uRawQuery = [], uFragment = [], uRawFragment = []\<rparr>"

definition stringContainsCTLByte :: "string \<Rightarrow> bool" where
  "stringContainsCTLByte s = list_ex (\<lambda>c. (of_char c :: nat) < 32 \<or> (of_char c :: nat) = 127) s"

text \<open>
  \<open>getScheme\<close>: the loop over the bytes of \<open>rawURL\<close>; \<open>seen\<close> holds the bytes
  before the current one, so it is empty exactly at index 0.
\<close>

fun getScheme_loop :: "string \<Rightarrow> string \<Rightarrow> string \<Rightarrow> string + (string \<times> string)" where
  "getScheme_loop rawURL seen [] = Inr ([], rawURL)"
| "getScheme_loop rawURL seen (c # cs) =
     (if is_letter c then getScheme_loop rawURL (seen @ [c]) cs
      else if is_digit c \<or> c \<in> set ''+-.'' then
        (if seen = [] then Inr ([], rawURL) else getScheme_loop rawURL (seen @ [c]) cs)
      else if c = CHR '':'' then
        (if seen = [] then Inl ''missing protocol scheme'' else Inr (seen, cs))
      else Inr ([], rawURL))"

definition getScheme :: "string \<Rightarrow> string + (string \<times> string)" where
  "getScheme rawURL = getScheme_loop rawURL [] rawURL"

text \<open>\<open>strings.LastIndex\<close> with a separator of one byte.\<close>

definition LastIndex :: "string \<Rightarrow> char \<Rightarrow> nat option" where
  "LastIndex s c =
     (if c \<in> set s then Some (length s - 1 - length (takeWhile (\<lambda>x. x \<noteq> c) (rev s))) else None)"

definition validOptionalPort :: "string \<Rightarrow> bool" where
  "validOptionalPort port =
     (case port of
        [] \<Rightarrow> True
      | c # cs \<Rightarrow> c = CHR '':'' \<and> list_all is_digit cs)"

definition parseHost :: "string \<Rightarrow> string + string" where
  "parseHost host =
     (if HasPrefix host ''['' then
        (case LastIndex host (CHR '']'') of
           None \<Rightarrow> Inl (''missing '' @ [CHR 0x27] @ '']'' @ [CHR 0x27] @ '' in host'')
         | Some i \<Rightarrow>
             if \<not> validOptionalPort (drop (i + 1) host) then
               Inl (''invalid port '' @ quote (drop (i + 1) host) @ '' after host'')
             else
               (case Index (take i host) ''%25'' of
                  Some zone \<Rightarrow>
                    (case unescape (take zone host) encodeHost of
                       Inl err \<Rightarrow> Inl err
                     | Inr host1 \<Rightarrow>
                         (case unescape (take (i - zone) (drop zone host)) encodeZone of
                            Inl err \<Rightarrow> Inl err
                          | Inr host2 \<Rightarrow>
                              (case unescape (drop i host) encodeHost of
                                 Inl err \<Rightarrow> Inl err
                               | Inr host3 \<Rightarrow> Inr (host1 @ host2 @ host3))))
                | None \<Rightarrow> unescape host encodeHost))
      else
        (case LastIndex host (CHR '':'') of
           Some i \<Rightarrow>
             if \<not> validOptionalPort (drop i host) then
               Inl (''invalid port '' @ quote (drop i host) @ '' after host'')
             else unescape host encodeHost
         | None \<Rightarrow> unescape host encodeHost))"

definition validUserinfo :: "string \<Rightarrow> bool" where
  "validUserinfo s =
     list_all (\<lambda>r. is_letter r \<or> is_digit r \<or> r \<in> set ([CHR 0x27] @ ''-._:~!$&()*+,;=%@'')) s"

definition parseAuthority :: "string \<Rightarrow> string + ((string \<times> string option) option \<times> string)" where
  "parseAuthority authority =
     (case LastIndex authority (CHR ''@'') of
        None \<Rightarrow>
          (case parseHost authority of
             Inl err \<Rightarrow> Inl err
           | Inr host \<Rightarrow> Inr (None, host))
      | Some i \<Rightarrow>
          (case parseHost (drop (i + 1) authority) of
             Inl err \<Rightarrow> Inl err
           | Inr host \<Rightarrow>
               let userinfo = take i authority in
               if \<not> validUserinfo userinfo then Inl ''net/url: invalid userinfo''
               else if CHR '':'' \<notin> set userinfo then
                 (case unescape userinfo encodeUserPassword of
                    Inl err \<Rightarrow> Inl err
                  | Inr username \<Rightarrow> Inr (Some (username, None), host))
               else
                 (case unescape (fst (Cut userinfo (CHR '':''))) encodeUserPassword of
                    Inl err \<Rightarrow> Inl err
                  | Inr username \<Rightarrow>
                      (case unescape (snd (Cut userinfo (CHR '':''))) encodeUserPassword of
                         Inl err \<Rightarrow> Inl err
                       | Inr password \<Rightarrow> Inr (Some (username, Some password), host)))))"

definition setPath :: "url \<Rightarrow> string \<Rightarrow> string + url" where
  "setPath u p =
     (case unescape p encodePath of
        Inl err \<Rightarrow> Inl err
      | Inr path \<Rightarrow>
          Inr (u\<lparr>uPath := path, uRawPath := (if p = escape path encodePath then [] else p)\<rparr>))"

definition setFragment :: "url \<Rightarrow> string \<Rightarrow> string + url" where
  "setFragment u f =
     (case unescape f encodeFragment of
        Inl err \<Rightarrow> Inl err
      | Inr frag \<Rightarrow>
          Inr (u\<lparr>uFragment := frag,
                 uRawFragment := (if f = escape frag encodeFragment then [] else f)\<rparr>))"

text \<open>\<open>parse(rawURL, viaRequest)\<close> with \<open>viaRequest = false\<close>, as \<open>url.Parse\<close> calls it.\<close>

definition parse :: "string \<Rightarrow> string + url" where
  "parse rawURL =
     (if stringContainsCTLByte rawURL then Inl ''net/url: invalid control character in URL''
      else if rawURL = ''*'' then Inr (url_zero\<lparr>uPath := ''*''\<rparr>)
      else
        (case getScheme rawURL of
           Inl err \<Rightarrow> Inl err
         | Inr (scheme, rest0) \<Rightarrow>
             let force = (HasSuffix rest0 ''?'' \<and> count_list rest0 (CHR ''?'') = 1);
                 rest = (if force then butlast rest0 else fst (Cut rest0 (CHR ''?'')));
                 u = url_zero\<lparr>uScheme := map byte_ToLower scheme,
                               uForceQuery := force,
                               uRawQuery := (if force then [] else snd (Cut rest0 (CHR ''?'')))\<rparr>
             in
               if \<not> HasPrefix rest ''/'' \<and> uScheme u \<noteq> [] then Inr (u\<lparr>uOpaque := rest\<rparr>)
               else if \<not> HasPrefix rest ''/'' \<and> CHR '':'' \<in> set (fst (Cut rest (CHR ''/''))) then
                 Inl ''first path segment in URL cannot contain colon''
               else if (uScheme u \<noteq> [] \<or> \<not> HasPrefix rest ''///'') \<and> HasPrefix rest ''//'' then
                 (case parseAuthority (takeWhile (\<lambda>c. c \<noteq> CHR ''/'') (drop 2 rest)) of
                    Inl err \<Rightarrow> Inl err
                  | Inr (user, host) \<Rightarrow>
                      setPath (u\<lparr>uUser := user, uHost := host\<rparr>)
                        (dropWhile (\<lambda>c. c \<noteq> CHR ''/'') (drop 2 rest)))
               else if uScheme u \<noteq> [] \<and> HasPrefix rest ''/'' then
                 setPath (u\<lparr>uOmitHost := True\<rparr>) rest
               else setPath u rest))"

text \<open>\<open>url.Parse\<close>: the fragment is cut off first; an error is wrapped in \<open>url.Error\<close>.\<close>

definition go_Parse :: "string \<Rightarrow> string + url" where
  "go_Parse rawURL =
     (let u = fst (Cut rawURL (CHR ''#''));
          frag = snd (Cut rawURL (CHR ''#''))
      in (case parse u of
            Inl err \<Rightarrow> Inl (''parse '' @ quote u @ '': '' @ err)
          | Inr url \<Rightarrow>
              if frag = [] then Inr url
              else
                (case setFragment url frag of
                   Inl err \<Rightarrow> Inl (''parse '' @ quote rawURL @ '': '' @ err)
                 | Inr url' \<Rightarrow> Inr url')))"

subsection \<open>Formatting a URL (net/url)\<close>

definition validEncoded :: "string \<Rightarrow> encoding \<Rightarrow> bool" where
  "validEncoded s mode =
     list_all (\<lambda>c. c \<in> set ([CHR 0x27] @ ''!$&()*+,;=:@[]%'') \<or> \<not> shouldEscape c mode) s"

definition EscapedPath :: "url \<Rightarrow> string" where
  "EscapedPath u =
     (if uRawPath u \<noteq> [] \<and> validEncoded (uRawPath u) encodePath
         \<and> unescape (uRawPath u) encodePath = Inr (uPath u) then uRawPath u
      else if uPath u = ''*'' then ''*''
      else escape (uPath u) encodePath)"

definition EscapedFragment :: "url \<Rightarrow> string" where
  "EscapedFragment u =
     (if uRawFragment u \<noteq> [] \<and> validEncoded (uRawFragment u) encodeFragment
         \<and> unescape (uRawFragment u) encodeFragment = Inr (uFragment u) then uRawFragment u
      else escape (uFragment u) encodeFragment)"

definition Userinfo_String :: "string \<times> string option \<Rightarrow> string" where
  "Userinfo_String ui =
     (case ui of
        (username, None) \<Rightarrow> escape username encodeUserPassword
      | (username, Some password) \<Rightarrow>
          escape username encodeUserPassword @ '':'' @ escape password encodeUserPassword)"

text \<open>\<open>func (u *URL) String() string\<close>; each \<open>buf\<close> is the builder after one step.\<close>

definition go_URL_String :: "url \<Rightarrow> string" where
  "go_URL_String u =
     (let buf1 = (if uScheme u \<noteq> [] then uScheme u @ '':'' else []);
          buf2 =
            (if uOpaque u \<noteq> [] then buf1 @ uOpaque u
             else
               let buf_a =
                     (if (uScheme u \<noteq> [] \<or> uHost u \<noteq> [] \<or> uUser u \<noteq> None)
                         \<and> \<not> (uOmitHost u \<and> uHost u = [] \<and> uUser u = None)
                      then buf1
                        @ (if uHost u \<noteq> [] \<or> uPath u \<noteq> [] \<or> uUser u \<noteq> None then ''//'' else [])
                        @ (case uUser u of Some ui \<Rightarrow> Userinfo_String ui @ ''@'' | None \<Rightarrow> [])
                        @ (if uHost u \<noteq> [] then escape (uHost u) encodeHost else [])
                      else buf1);
                   path = EscapedPath u;
                   buf_b = (if path \<noteq> [] \<and> take 1 path \<noteq> ''/'' \<and> uHost u \<noteq> [] then buf_a @ ''/''
                            else buf_a);
                   buf_c = (if buf_b = [] \<and> CHR '':'' \<in> set (fst (Cut path (CHR ''/''))) then ''./''
                            else buf_b)
               in buf_c @ path);
          buf3 = (if uForceQuery u \<or> uRawQuery u \<noteq> [] then buf2 @ ''?'' @ uRawQuery u else buf2)
      in if uFragment u \<noteq> [] then buf3 @ ''#'' @ EscapedFragment u else buf3)"

subsection \<open>Parsing a query (net/url)\<close>

text \<open>
  The loop of \<open>parseQuery\<close> cuts the query at each \<open>&\<close>; here it runs over the pieces.
  A piece with a semicolon sets the error, an empty piece is skipped, and a piece whose
  key or value does not unescape keeps the first such error. \<open>ParseQuery\<close> returns the
  map together with the error; both parsers drop the map when there is an error.
\<close>

fun parseQuery :: "string list \<Rightarrow> url_Values \<Rightarrow> string option \<Rightarrow> url_Values \<times> string option" where
  "parseQuery [] m err = (m, err)"
| "parseQuery (key # query) m err =
     (if CHR '';'' \<in> set key then
        parseQuery query m (Some ''invalid semicolon separator in query'')
      else if key = [] then parseQuery query m err
      else
        (case QueryUnescape (fst (Cut key (CHR ''=''))) of
           Inl err1 \<Rightarrow> parseQuery query m (if err = None then Some err1 else err)
         | Inr k \<Rightarrow>
             (case QueryUnescape (snd (Cut key (CHR ''=''))) of
                Inl err1 \<Rightarrow> parseQuery query m (if err = None then Some err1 else err)
              | Inr v \<Rightarrow>
                  parseQuery query
                    (m(k \<mapsto> (case m k of None \<Rightarrow> [] | Some vs \<Rightarrow> vs) @ [v])) err)))"

definition go_ParseQuery :: "string \<Rightarrow> string + url_Values" where
  "go_ParseQuery query =
     (case parseQuery (if query = [] then [] else Split (CHR ''&'') query) Map.empty None of
        (m, None) \<Rightarrow> Inr m
      | (m, Some err) \<Rightarrow> Inl err)"

subsection \<open>Joining paths (path/filepath, Unix)\<close>

text \<open>
  \<open>filepath.Clean\<close> by path elements: empty elements and \<open>.\<close> are dropped, \<open>..\<close>
  removes the element before it, is dropped at the root and is kept at the start of a
  path that is not rooted. \<open>out\<close> holds the elements kept so far, the last one first.
\<close>

fun clean_elems :: "bool \<Rightarrow> string list \<Rightarrow> string list \<Rightarrow> string list" where
  "clean_elems rooted out [] = rev out"
| "clean_elems rooted out (e # es) =
     (if e = [] \<or> e = ''.'' then clean_elems rooted out es
      else if e = ''..'' then
        (case out of
           [] \<Rightarrow> if rooted then clean_elems rooted [] es else clean_elems rooted [e] es
         | x # xs \<Rightarrow>
             if x = ''..'' then clean_elems rooted (e # out) es
             else clean_elems rooted xs es)
      else clean_elems rooted (e # out) es)"

definition go_Clean :: "string \<Rightarrow> string" where
  "go_Clean path =
     (if path = [] then ''.''
      else
        let rooted = (take 1 path = ''/'');
            body = Join_slash (clean_elems rooted [] (Split (CHR ''/'') path))
        in if rooted then ''/'' @ body
           else if body = [] then ''.''
           else body)"

text \<open>\<open>filepath.Join\<close>: leading empty elements are skipped, the rest is joined and cleaned.\<close>

definition go_Join :: "string list \<Rightarrow> string" where
  "go_Join elem =
     (case dropWhile (\<lambda>e. e = []) elem of
        [] \<Rightarrow> []
      | es \<Rightarrow> go_Clean (Join_slash es))"

subsection \<open>Expanding the home directory (internal/homedir)\<close>

text \<open>
  Modelled from the spec: package internal/homedir is not among the sources. The spec
  says that a leading home-directory shorthand of a local path is expanded. That the
  helper can fail is read off its two call sites, which test its error and return it.
  In this instance \<open>home\<close> is the home directory of the user, \<open>None\<close> when it cannot
  be determined. A path that does not start with \<open>~\<close> is returned as it is; \<open>~\<close> and
  \<open>~/...\<close> are joined to the home directory, which fails when there is none; the
  shorthand \<open>~name/...\<close> for the home directory of another user is not expanded and is
  an error.
\<close>

definition Expand :: "string option \<Rightarrow> string \<Rightarrow> string + string" where
  "Expand home path =
     (if path = [] then Inr path
      else if take 1 path \<noteq> ''~'' then Inr path
      else if length path > 1 \<and> take 1 (drop 1 path) \<noteq> ''/'' \<and> take 1 (drop 1 path) \<noteq> [CHR 0x5C] then
        Inl ''cannot expand user-specific home dir''
      else
        (case home of
           None \<Rightarrow> Inl ''unable to determine the home directory''
         | Some dir \<Rightarrow> Inr (go_Join [dir, drop 1 path])))"

subsection \<open>The instance\<close>

text \<open>
  \<open>go_deps cache home\<close>: the library functions above, the cache directory \<open>cache\<close> for
  both package variables, and the home directory \<open>home\<close>.
\<close>

definition go_deps :: "string \<Rightarrow> string option \<Rightarrow> deps" where
  "go_deps cache home =
     \<lparr>url_Parse = go_Parse,
      url_ParseQuery = go_ParseQuery,
      url_PathEscape = PathEscape,
      url_String = go_URL_String,
      filepath_Join = go_Join,
      homedir_Expand = Expand home,
      LocalRepositoryCacheDir = cache,
      LocalCache = cache\<rparr>"

section \<open>Merging skeletons (kickoff.MergeSkeletons)\<close>

text \<open>
  Modelled from the spec: \<open>kickoff.MergeSkeletons\<close> and the type \<open>kickoff.Skeleton\<close>
  are used by \<open>Run\<close> in internal/cmd/project/create.go but are not among the sources.
  The spec describes a skeleton as its values, a mapping from strings to nested values
  (scalars, sequences and maps), its file entries in lexical order, and the repository
  it came from. A mapping is a list of bindings here; a well-formed one binds each key
  once.
\<close>

datatype tvalue =
    VNull
  | VBool bool
  | VInt int
  | VStr string
  | VSeq "tvalue list"
  | VMap "(string \<times> tvalue) list"

record FileEntry =
  RelativePath :: string
  AbsoluteSourcePath :: string
  IsDir :: bool
  IsTemplate :: bool
  Mode :: nat

record Skeleton =
  Values :: "(string \<times> tvalue) list"
  Files :: "FileEntry list"
  SourceRepo :: "RepoRef option"

datatype merge_error = EmptyMergeError | FileTypeConflictError string

text \<open>
  Modelled from the spec: writing a key of a mapping. \<open>put k v m\<close> binds \<open>k\<close> to
  \<open>v\<close>: in place when \<open>m\<close> binds \<open>k\<close>, at the end otherwise.
\<close>

fun put :: "string \<Rightarrow> tvalue \<Rightarrow> (string \<times> tvalue) list \<Rightarrow> (string \<times> tvalue) list" where
  "put k v [] = [(k, v)]"
| "put k v ((k', v') # m) = (if k' = k then (k, v) # m else (k', v') # put k v m)"

text \<open>
  Modelled from the spec: the values merge inside \<open>MergeSkeletons\<close>. For each key of
  the later mapping its value replaces the earlier one; two maps are merged key by key,
  recursively; every other value is replaced as a whole by the later one.
\<close>

fun merge_value :: "tvalue \<Rightarrow> tvalue \<Rightarrow> tvalue"
  and merge_values :: "(string \<times> tvalue) list \<Rightarrow> (string \<times> tvalue) list \<Rightarrow> (string \<times> tvalue) list" where
  "merge_value (VMap a) (VMap b) = VMap (merge_values a b)"
| "merge_value earlier later = later"
| "merge_values a [] = a"
| "merge_values a ((k, v) # b) =
     merge_values (put k (case map_of a k of None \<Rightarrow> v | Some earlier \<Rightarrow> merge_value earlier v) a) b"

text \<open>
  Modelled from the spec: the file-tree merge inside \<open>MergeSkeletons\<close>. An entry is
  inserted by its relative path. A later entry at a path that is already there replaces
  the earlier one in place, so the path keeps the position of its first introduction; a
  directory declared again is left as it is; a directory meeting a file is a
  \<open>FileTypeConflictError\<close>.
\<close>

fun insert_entry :: "FileEntry \<Rightarrow> FileEntry list \<Rightarrow> merge_error + FileEntry list" where
  "insert_entry e [] = Inr [e]"
| "insert_entry e (x # xs) =
     (if RelativePath x = RelativePath e then
        (if IsDir x \<noteq> IsDir e then Inl (FileTypeConflictError (RelativePath e))
         else if IsDir e then Inr (x # xs)
         else Inr (e # xs))
      else
        (case insert_entry e xs of
           Inl err \<Rightarrow> Inl err
         | Inr xs' \<Rightarrow> Inr (x # xs')))"

text \<open>
  Modelled from the spec: the entries of one skeleton are inserted in their order; the
  first conflict ends the merge.
\<close>

fun merge_files :: "FileEntry list \<Rightarrow> FileEntry list \<Rightarrow> merge_error + FileEntry list" where
  "merge_files acc [] = Inr acc"
| "merge_files acc (e # es) =
     (case insert_entry e acc of
        Inl err \<Rightarrow> Inl err
      | Inr acc' \<Rightarrow> merge_files acc' es)"

text \<open>
  Modelled from the spec: the skeletons are taken from left to right, each merged into
  what the earlier ones gave; the source repository means nothing after a merge and is
  dropped.
\<close>

fun merge_into :: "Skeleton \<Rightarrow> Skeleton list \<Rightarrow> merge_error + Skeleton" where
  "merge_into acc [] = Inr acc"
| "merge_into acc (s # ss) =
     (case merge_files (Files acc) (Files s) of
        Inl err \<Rightarrow> Inl err
      | Inr files \<Rightarrow>
          merge_into \<lparr>Values = merge_values (Values acc) (Values s), Files = files,
                      SourceRepo = None\<rparr> ss)"

text \<open>
  Modelled from the spec: \<open>MergeSkeletons\<close> itself. An empty sequence is an
  \<open>EmptyMergeError\<close>; otherwise the skeletons are merged in their order.
\<close>

definition MergeSkeletons :: "Skeleton list \<Rightarrow> merge_error + Skeleton" where
  "MergeSkeletons skeletons =
     (if skeletons = [] then Inl EmptyMergeError
      else merge_into \<lparr>Values = [], Files = [], SourceRepo = None\<rparr> skeletons)"

section \<open>Creating a project (project.Create)\<close>

text \<open>
  Modelled from the spec: \<open>project.Create\<close>, \<open>project.Config\<close> and the action types are
  used by \<open>createProject\<close> (internal/cmd/project/create.go) but package
  internal/project is not among the sources. The model follows the steps of the spec's
  materializer. The filesystem of the configuration is a map from paths to nodes, handed
  through the walk; the output sink is left out, since the materializer prints nothing.
\<close>

datatype ActionType =
    ActionTypeCreate
  | ActionTypeSkip
  | ActionTypeSkipExisting
  | ActionTypeOverwrite
  | ActionTypeOverwriteFile

datatype node = Directory | RegularFile string nat

type_synonym filesystem = "string \<rightharpoonup> node"

record Config =
  ProjectName :: string
  Host :: string
  Owner :: string
  Overwrite :: bool
  OverwriteFiles :: "string list"
  SkipFiles :: "string list"
  ConfigValues :: "(string \<times> tvalue) list"
  License :: "(string \<times> string) option"
  Gitignore :: "(string \<times> string) option"

record Result =
  Stats :: "ActionType \<Rightarrow> nat"
  Entries :: "(string \<times> ActionType) list"

datatype create_error = TemplateRenderError string | FilesystemError string

text \<open>
  Modelled from the spec: what the spec leaves to collaborators, as parameters: when a
  pattern of \<open>SkipFiles\<close> or \<open>OverwriteFiles\<close> matches a path, the bytes of a source
  file (\<open>None\<close> for an I/O error), and the template engine, which gets the reserved
  identifiers (project name, host, owner), the merged values and the template text and
  may fail.
\<close>

record project_deps =
  pattern_matches :: "string \<Rightarrow> string \<Rightarrow> bool"
  read_source :: "string \<Rightarrow> string option"
  render :: "string \<times> string \<times> string \<Rightarrow> (string \<times> tvalue) list \<Rightarrow> string \<Rightarrow> string option"

text \<open>
  Modelled from the spec: the ancestor directories of a target path, the nearest to the
  root first.
\<close>

definition ancestors :: "string \<Rightarrow> string list" where
  "ancestors path =
     filter (\<lambda>a. a \<noteq> [])
       (map (\<lambda>n. Join_slash (take n (Split (CHR ''/'') path)))
            [1 ..< length (Split (CHR ''/'') path)])"

text \<open>
  Modelled from the spec: a pattern of the list matches the target path or one of its
  ancestor directories.
\<close>

definition matches_any :: "project_deps \<Rightarrow> string list \<Rightarrow> string \<Rightarrow> bool" where
  "matches_any pd patterns target =
     list_ex (\<lambda>pattern. list_ex (pattern_matches pd pattern) (target # ancestors target)) patterns"

text \<open>
  Modelled from the spec: the result counts each action kind and lists every path with
  its action in the order of the walk.
\<close>

definition record_action :: "string \<Rightarrow> ActionType \<Rightarrow> Result \<Rightarrow> Result" where
  "record_action path a r = \<lparr>Stats = (Stats r)(a := Stats r a + 1), Entries = Entries r @ [(path, a)]\<rparr>"

text \<open>
  Modelled from the spec: steps 2 to 4 of the materializer for one target. The skip
  policy comes first; a directory is created
  when it is missing and not recorded when it is there; a file is written when the target
  is missing, or when it exists and a pattern of \<open>OverwriteFiles\<close> matches, or when it
  exists and \<open>Overwrite\<close> is set, and is left alone otherwise. \<open>content\<close> is what a
  write would put there, or the error that getting it raises; the walk stops at an error.
\<close>

definition materialize ::
  "project_deps \<Rightarrow> Config \<Rightarrow> string \<Rightarrow> bool \<Rightarrow> nat \<Rightarrow> create_error + string
     \<Rightarrow> filesystem \<times> Result \<Rightarrow> create_error + filesystem \<times> Result" where
  "materialize pd config target isDir mode content st =
     (let fs = fst st; result = snd st;
          write = (\<lambda>a. case content of
                          Inl err \<Rightarrow> Inl err
                        | Inr bytes \<Rightarrow>
                            Inr (fs(target \<mapsto> RegularFile bytes mode), record_action target a result))
      in
        if matches_any pd (SkipFiles config) target then
          Inr (fs, record_action target ActionTypeSkip result)
        else if isDir then
          (case fs target of
             None \<Rightarrow> Inr (fs(target \<mapsto> Directory), record_action target ActionTypeCreate result)
           | Some Directory \<Rightarrow> Inr (fs, result)
           | Some (RegularFile bytes m) \<Rightarrow> Inl (FilesystemError target))
        else
          (case fs target of
             None \<Rightarrow> write ActionTypeCreate
           | Some existing \<Rightarrow>
               if matches_any pd (OverwriteFiles config) target then write ActionTypeOverwriteFile
               else if Overwrite config then write ActionTypeOverwrite
               else Inr (fs, record_action target ActionTypeSkipExisting result)))"

text \<open>
  Modelled from the spec: step 5. A template is rendered with the values of the configuration layered over the
  values of the skeleton; any other file is copied.
\<close>

definition entry_content ::
  "project_deps \<Rightarrow> Config \<Rightarrow> (string \<times> tvalue) list \<Rightarrow> FileEntry \<Rightarrow> create_error + string" where
  "entry_content pd config skeletonValues e =
     (case read_source pd (AbsoluteSourcePath e) of
        None \<Rightarrow> Inl (FilesystemError (AbsoluteSourcePath e))
      | Some bytes \<Rightarrow>
          if IsTemplate e then
            (case render pd (ProjectName config, Host config, Owner config)
                    (merge_values skeletonValues (ConfigValues config)) bytes of
               None \<Rightarrow> Inl (TemplateRenderError (RelativePath e))
             | Some text \<Rightarrow> Inr text)
          else Inr bytes)"

text \<open>
  Modelled from the spec: step 1 (the target is the output directory joined with the
  relative path) and the steps above, for one entry of the skeleton.
\<close>

definition create_entry ::
  "project_deps \<Rightarrow> Config \<Rightarrow> (string \<times> tvalue) list \<Rightarrow> string \<Rightarrow> FileEntry
     \<Rightarrow> filesystem \<times> Result \<Rightarrow> create_error + filesystem \<times> Result" where
  "create_entry pd config skeletonValues outputDir e st =
     materialize pd config (go_Join [outputDir, RelativePath e]) (IsDir e) (Mode e)
       (entry_content pd config skeletonValues e) st"

text \<open>
  Modelled from the spec: the walk over the entries in order (steps 7 and 8). It stops at the first error; what was written
  before stays on the filesystem, which is returned with the error, and the result built
  so far is dropped.
\<close>

fun create_entries ::
  "project_deps \<Rightarrow> Config \<Rightarrow> (string \<times> tvalue) list \<Rightarrow> string \<Rightarrow> FileEntry list
     \<Rightarrow> filesystem \<times> Result \<Rightarrow> create_error \<times> filesystem + filesystem \<times> Result" where
  "create_entries pd config skeletonValues outputDir [] st = Inr st"
| "create_entries pd config skeletonValues outputDir (e # es) st =
     (case create_entry pd config skeletonValues outputDir e st of
        Inl err \<Rightarrow> Inl (err, fst st)
      | Inr st' \<Rightarrow> create_entries pd config skeletonValues outputDir es st')"

text \<open>
  Modelled from the spec: step 6. The synthesized \<open>LICENSE\<close> and \<open>.gitignore\<close> go through the same steps after
  the tree of the skeleton, as literal files (written with mode 0644).
\<close>

definition create_synthesized ::
  "project_deps \<Rightarrow> Config \<Rightarrow> string \<Rightarrow> string \<Rightarrow> (string \<times> string) option
     \<Rightarrow> filesystem \<times> Result \<Rightarrow> create_error \<times> filesystem + filesystem \<times> Result" where
  "create_synthesized pd config outputDir name file st =
     (case file of
        None \<Rightarrow> Inr st
      | Some (label, bytes) \<Rightarrow>
          (case materialize pd config (go_Join [outputDir, name]) False 420 (Inr bytes) st of
             Inl err \<Rightarrow> Inl (err, fst st)
           | Inr st' \<Rightarrow> Inr st'))"

text \<open>
  Modelled from the spec: \<open>Create\<close> itself. The tree of the skeleton is walked first,
  then the synthesized files are added; the result starts with no action.
\<close>

definition Create ::
  "project_deps \<Rightarrow> Skeleton \<Rightarrow> string \<Rightarrow> Config \<Rightarrow> filesystem
     \<Rightarrow> create_error \<times> filesystem + filesystem \<times> Result" where
  "Create pd skeleton outputDir config fs =
     (case create_entries pd config (Values skeleton) outputDir (Files skeleton)
             (fs, \<lparr>Stats = (\<lambda>a. 0), Entries = []\<rparr>) of
        Inl failed \<Rightarrow> Inl failed
      | Inr st1 \<Rightarrow>
          (case create_synthesized pd config outputDir ''LICENSE'' (License config) st1 of
             Inl failed \<Rightarrow> Inl failed
           | Inr st2 \<Rightarrow>
               create_synthesized pd config outputDir ''.gitignore'' (Gitignore config) st2))"

section \<open>Example inputs\<close>

text \<open>
  The dependencies of a user whose home directory is \<open>/home/u\<close>, and those of a process
  whose home directory cannot be determined.
\<close>

definition example_deps :: deps where
  "example_deps = go_deps ''/home/u/.cache/kickoff/repositories'' (Some ''/home/u'')"

definition no_home_deps :: deps where
  "no_home_deps = go_deps ''/var/cache/kickoff/repositories'' None"

text \<open>
  Constructors for the examples: the instance is named by the path of its reference, the
  world counts the fetches, a remote repository is fetched once when it is constructed,
  and a local repository with an empty path is not found.
\<close>

definition example_constructors :: "(string, nat) constructors" where
  "example_constructors =
     \<lparr>NewRemoteRepository = (\<lambda>ref fetches. (Inr (Path ref), Suc fetches)),
      NewLocalRepository = (\<lambda>ref fetches.
         if Path ref = [] then (Inl (Passed ''repository not found''), fetches)
         else (Inr (Path ref), fetches))\<rparr>"

text \<open>Constructors whose first fetch fails and whose later fetches succeed.\<close>

definition flaky_constructors :: "(string, nat) constructors" where
  "flaky_constructors =
     \<lparr>NewRemoteRepository = (\<lambda>ref attempts.
         if attempts = 0 then (Inl (Passed ''network unreachable''), Suc attempts)
         else (Inr (Path ref), Suc attempts)),
      NewLocalRepository = (\<lambda>ref attempts. (Inr (Path ref), attempts))\<rparr>"

text \<open>Constructors whose every fetch fails; the world counts the attempts.\<close>

definition failing_constructors :: "(string, nat) constructors" where
  "failing_constructors =
     \<lparr>NewRemoteRepository = (\<lambda>ref attempts.
         (Inl (Passed ''network unreachable''), Suc attempts)),
      NewLocalRepository = (\<lambda>ref attempts. (Inl (Passed ''repository not found''), attempts))\<rparr>"

definition example_resolver :: "(string, nat) resolver" where
  "example_resolver = \<lparr>repoCache = Map.empty, world = 0\<rparr>"

text \<open>
  Collaborators of the materializer for the examples: a pattern matches the path it
  spells, the one source file holds \<open>new\<close>, and no template renders.
\<close>

definition example_project_deps :: project_deps where
  "example_project_deps =
     \<lparr>pattern_matches = (\<lambda>pattern path. pattern = path),
      read_source = (\<lambda>path. if path = ''/skel/README.md'' then Some ''new'' else None),
      render = (\<lambda>reserved vals text. None)\<rparr>"

definition example_config :: Config where
  "example_config =
     \<lparr>ProjectName = ''p'', Host = ''github.com'', Owner = ''u'', Overwrite = False,
      OverwriteFiles = [], SkipFiles = [], ConfigValues = [], License = None, Gitignore = None\<rparr>"

definition example_entry :: FileEntry where
  "example_entry =
     \<lparr>RelativePath = ''docs/README.md'', AbsoluteSourcePath = ''/skel/README.md'', IsDir = False,
      IsTemplate = False, Mode = 420\<rparr>"

definition example_fs :: filesystem where
  "example_fs = [''/out/docs'' \<mapsto> Directory, ''/out/docs/README.md'' \<mapsto> RegularFile ''old'' 420]"

definition example_result :: Result where
  "example_result = \<lparr>Stats = (\<lambda>a. 0), Entries = []\<rparr>"

text \<open>The skeletons \<open>A\<close> and \<open>B\<close> of the merge example.\<close>

definition skeleton_A :: Skeleton where
  "skeleton_A = \<lparr>Values = [(''key'', VInt 1)], Files = [], SourceRepo = None\<rparr>"

definition skeleton_B :: Skeleton where
  "skeleton_B = \<lparr>Values = [(''key'', VInt 2)], Files = [], SourceRepo = None\<rparr>"

section \<open>The two parsers\<close>

text \<open>The formatter of the Go library gives a URL with a host a non-empty string.\<close>

lemma go_URL_String_host: "uHost u \<noteq> [] \<Longrightarrow> go_URL_String u \<noteq> []"
  by (simp add: go_URL_String_def Let_def)

text \<open>
  C8. The two parsers are equivalent. \<open>ParseRepoRef\<close> of package kickoff and
  \<open>ParseURL\<close> of package repository differ only in the package variable that holds the
  cache directory. When the two variables are equal, the parsers return the same result
  for every input: the same error, or references with the same name, URL, path and
  revision.
\<close>

theorem ParseURL_eq_ParseRepoRef:
  assumes "LocalRepositoryCacheDir d = LocalCache d"
  shows "ParseURL d rawurl = ParseRepoRef d rawurl"
  using assms
  by (simp add: ParseURL_def ParseRepoRef_def kickoff_buildLocalCacheDir_def
      repository_buildLocalCacheDir_def Let_def split: sum.splits)

theorem ParseURL_eq_ParseRepoRef_witness:
  "LocalRepositoryCacheDir example_deps = LocalCache example_deps
   \<and> ParseURL example_deps ''https://github.com/foo/bar?revision=v1''
       = ParseRepoRef example_deps ''https://github.com/foo/bar?revision=v1''
   \<and> ParseRepoRef example_deps ''https://github.com/foo/bar?revision=v1''
       = Inr \<lparr>Name = [], URL = ''https://github.com/foo/bar'',
              Path = ''/home/u/.cache/kickoff/repositories/github.com/foo/bar@v1'',
              Revision = ''v1''\<rparr>"
proof -
  have same: "LocalRepositoryCacheDir example_deps = LocalCache example_deps"
    by (simp add: example_deps_def go_deps_def)
  have parsed: "ParseRepoRef example_deps ''https://github.com/foo/bar?revision=v1''
      = Inr \<lparr>Name = [], URL = ''https://github.com/foo/bar'',
             Path = ''/home/u/.cache/kickoff/repositories/github.com/foo/bar@v1'',
             Revision = ''v1''\<rparr>"
    by code_simp
  from same parsed
    ParseURL_eq_ParseRepoRef [OF same, of "''https://github.com/foo/bar?revision=v1''"]
  show ?thesis by simp
qed

text \<open>
  C2, as stated, fails: a locator that parses as a URL with a host does not give a remote
  reference when its query is malformed. \<open>url.Parse\<close> accepts
  \<open>https://github.com/foo/bar?revision=%zz\<close> with the host \<open>github.com\<close>, and both
  parsers return the error of \<open>url.ParseQuery\<close>.
\<close>

theorem ParseRepoRef_remote_malformed_query:
  "url_Parse example_deps ''https://github.com/foo/bar?revision=%zz'' =
     Inr \<lparr>uScheme = ''https'', uOpaque = [], uUser = None, uHost = ''github.com'',
          uPath = ''/foo/bar'', uRawPath = [], uOmitHost = False, uForceQuery = False,
          uRawQuery = ''revision=%zz'', uFragment = [], uRawFragment = []\<rparr>
   \<and> ParseRepoRef example_deps ''https://github.com/foo/bar?revision=%zz''
       = Inl (InvalidURLQuery ''revision=%zz'' (''invalid URL escape '' @ quote ''%zz''))
   \<and> ParseURL example_deps ''https://github.com/foo/bar?revision=%zz''
       = Inl (InvalidURLQuery ''revision=%zz'' (''invalid URL escape '' @ quote ''%zz''))"
  by code_simp

text \<open>
  C2, amended. For every locator that parses as a URL with a non-empty host and whose
  query string is well-formed, both parsers return a remote reference: its revision is
  the first value of the query parameter \<open>revision\<close>, or \<open>master\<close> when the parameter
  is absent or that value is empty; its URL is the parsed URL formatted without the
  query; its path is the join of the cache directory, the host, and the URL path followed
  by \<open>@\<close> and the path-escaped revision.
\<close>

theorem ParseRepoRef_remote:
  assumes "url_Parse d rawurl = Inr u" and "uHost u \<noteq> []"
    and "url_ParseQuery d (uRawQuery u) = Inr query"
    and "revision = (case query ''revision'' of
                       None \<Rightarrow> ''master''
                     | Some [] \<Rightarrow> ''master''
                     | Some (v # vs) \<Rightarrow> if v = [] then ''master'' else v)"
  shows "ParseRepoRef d rawurl =
           Inr \<lparr>Name = [], URL = url_String d (u\<lparr>uRawQuery := []\<rparr>),
                Path = filepath_Join d [LocalRepositoryCacheDir d, uHost u,
                         uPath u @ ''@'' @ url_PathEscape d revision],
                Revision = revision\<rparr>
       \<and> ParseURL d rawurl =
           Inr \<lparr>Name = [], URL = url_String d (u\<lparr>uRawQuery := []\<rparr>),
                Path = filepath_Join d [LocalCache d, uHost u,
                         uPath u @ ''@'' @ url_PathEscape d revision],
                Revision = revision\<rparr>
       \<and> IsRemote \<lparr>Name = [], URL = url_String d (u\<lparr>uRawQuery := []\<rparr>),
                Path = filepath_Join d [LocalRepositoryCacheDir d, uHost u,
                         uPath u @ ''@'' @ url_PathEscape d revision],
                Revision = revision\<rparr> = (url_String d (u\<lparr>uRawQuery := []\<rparr>) \<noteq> [])"
  using assms
  by (auto simp: ParseURL_def ParseRepoRef_def kickoff_buildLocalCacheDir_def
      repository_buildLocalCacheDir_def query_revision_def RepoRef_zero_def Let_def
      IsRemote_def split: option.splits list.splits)

theorem ParseRepoRef_remote_witness:
  "ParseRepoRef example_deps ''https://github.com/foo/bar?x=1&revision=&revision=v2'' =
     Inr \<lparr>Name = [], URL = ''https://github.com/foo/bar'',
          Path = ''/home/u/.cache/kickoff/repositories/github.com/foo/bar@master'',
          Revision = ''master''\<rparr>
   \<and> ParseRepoRef example_deps ''https://github.com/foo/bar?revision=v1'' =
     Inr \<lparr>Name = [], URL = ''https://github.com/foo/bar'',
          Path = ''/home/u/.cache/kickoff/repositories/github.com/foo/bar@v1'',
          Revision = ''v1''\<rparr>"
proof -
  let ?u = "\<lambda>q. \<lparr>uScheme = ''https'', uOpaque = [], uUser = None, uHost = ''github.com'',
          uPath = ''/foo/bar'', uRawPath = [], uOmitHost = False, uForceQuery = False,
          uRawQuery = q, uFragment = [], uRawFragment = []\<rparr>"
  have p1: "url_Parse example_deps ''https://github.com/foo/bar?x=1&revision=&revision=v2''
      = Inr (?u ''x=1&revision=&revision=v2'')"
    by code_simp
  have p2: "url_Parse example_deps ''https://github.com/foo/bar?revision=v1''
      = Inr (?u ''revision=v1'')"
    by code_simp
  have h: "uHost (?u q) \<noteq> []" for q by simp
  have q1: "url_ParseQuery example_deps (uRawQuery (?u ''x=1&revision=&revision=v2''))
      = Inr [''x'' \<mapsto> [''1''], ''revision'' \<mapsto> ['''', ''v2'']]"
    by (simp add: example_deps_def go_deps_def go_ParseQuery_def Cut_def QueryUnescape_def
        unescape_def)
  have q2: "url_ParseQuery example_deps (uRawQuery (?u ''revision=v1''))
      = Inr [''revision'' \<mapsto> [''v1'']]"
    by (simp add: example_deps_def go_deps_def go_ParseQuery_def Cut_def QueryUnescape_def
        unescape_def)
  have e1: "url_PathEscape example_deps ''master'' = ''master''"
    and e2: "url_PathEscape example_deps ''v1'' = ''v1''"
    by code_simp+
  have s: "url_String example_deps (?u []) = ''https://github.com/foo/bar''"
    by code_simp
  have j1: "filepath_Join example_deps [LocalRepositoryCacheDir example_deps, ''github.com'',
       ''/foo/bar@master''] = ''/home/u/.cache/kickoff/repositories/github.com/foo/bar@master''"
    and j2: "filepath_Join example_deps [LocalRepositoryCacheDir example_deps, ''github.com'',
       ''/foo/bar@v1''] = ''/home/u/.cache/kickoff/repositories/github.com/foo/bar@v1''"
    by code_simp+
  from ParseRepoRef_remote [OF p1 h q1 refl] ParseRepoRef_remote [OF p2 h q2 refl]
  show ?thesis by (simp add: e1 e2 s j1 j2)
qed

text \<open>
  C5, as stated, fails: a locator that parses as a URL without a host does not give a
  local reference when the home directory cannot be expanded. \<open>url.Parse\<close> accepts
  \<open>~bob/skeletons\<close> without a host, and both parsers return the error of
  \<open>homedir.Expand\<close>.
\<close>

theorem ParseRepoRef_local_expand_fails:
  "url_Parse example_deps ''~bob/skeletons'' =
     Inr \<lparr>uScheme = [], uOpaque = [], uUser = None, uHost = [], uPath = ''~bob/skeletons'',
          uRawPath = [], uOmitHost = False, uForceQuery = False, uRawQuery = [],
          uFragment = [], uRawFragment = []\<rparr>
   \<and> ParseRepoRef example_deps ''~bob/skeletons''
       = Inl (Passed ''cannot expand user-specific home dir'')
   \<and> ParseURL example_deps ''~bob/skeletons''
       = Inl (Passed ''cannot expand user-specific home dir'')"
  by code_simp

text \<open>
  C5, amended. For every locator that parses as a URL with an empty host and whose path
  \<open>homedir.Expand\<close> expands without error, both parsers return a local reference: its
  path is the expanded path of the parsed URL, and its URL, its revision and its name are
  empty.
\<close>

theorem ParseRepoRef_local:
  assumes "url_Parse d rawurl = Inr u" and "uHost u = []"
    and "homedir_Expand d (uPath u) = Inr path"
  shows "ParseRepoRef d rawurl = Inr \<lparr>Name = [], URL = [], Path = path, Revision = []\<rparr>
       \<and> ParseURL d rawurl = Inr \<lparr>Name = [], URL = [], Path = path, Revision = []\<rparr>
       \<and> \<not> IsRemote \<lparr>Name = [], URL = [], Path = path, Revision = []\<rparr>"
  using assms by (simp add: ParseRepoRef_def ParseURL_def RepoRef_zero_def IsRemote_def)

theorem ParseRepoRef_local_witness:
  "ParseRepoRef example_deps ''~/skeletons/../templates?revision=v1'' =
     Inr \<lparr>Name = [], URL = [], Path = ''/home/u/templates'', Revision = []\<rparr>"
proof -
  have p: "url_Parse example_deps ''~/skeletons/../templates?revision=v1'' =
     Inr \<lparr>uScheme = [], uOpaque = [], uUser = None, uHost = [],
          uPath = ''~/skeletons/../templates'', uRawPath = [], uOmitHost = False,
          uForceQuery = False, uRawQuery = ''revision=v1'', uFragment = [], uRawFragment = []\<rparr>"
    by code_simp
  have x: "homedir_Expand example_deps ''~/skeletons/../templates'' = Inr ''/home/u/templates''"
    by code_simp
  from ParseRepoRef_local [OF p _ , of "''/home/u/templates''"] x
  show ?thesis by simp
qed

text \<open>
  C6, as stated, fails: the parsers have a third error. A locator that \<open>url.Parse\<close>
  accepts without a host has no query to reject, but \<open>homedir.Expand\<close> may fail on its
  path, and the parser returns that error, which is neither of the two wrapped errors:
  for \<open>~/skeletons\<close> when the home directory cannot be determined, and for
  \<open>~alice/templates\<close> in any case.
\<close>

theorem ParseRepoRef_third_error:
  "url_Parse no_home_deps ''~/skeletons'' =
     Inr \<lparr>uScheme = [], uOpaque = [], uUser = None, uHost = [], uPath = ''~/skeletons'',
          uRawPath = [], uOmitHost = False, uForceQuery = False, uRawQuery = [],
          uFragment = [], uRawFragment = []\<rparr>
   \<and> ParseRepoRef no_home_deps ''~/skeletons''
       = Inl (Passed ''unable to determine the home directory'')
   \<and> url_Parse example_deps ''~alice/templates'' =
     Inr \<lparr>uScheme = [], uOpaque = [], uUser = None, uHost = [], uPath = ''~alice/templates'',
          uRawPath = [], uOmitHost = False, uForceQuery = False, uRawQuery = [],
          uFragment = [], uRawFragment = []\<rparr>
   \<and> ParseRepoRef example_deps ''~alice/templates''
       = Inl (Passed ''cannot expand user-specific home dir'')"
  by code_simp

text \<open>
  C6, amended. The parser returns an error exactly in three cases: the locator does not
  parse as a URL (the error wraps the cause and quotes the locator); it parses with a
  host and its query string is malformed (the error wraps the cause and quotes the
  query); it parses without a host and the expansion of the home directory fails (that
  error is returned as it is). For every other input it succeeds. The parser is a
  function of the locator and of what it calls; it has no state of its own to change.
\<close>

theorem ParseRepoRef_errors:
  "ParseRepoRef d rawurl = Inl e \<longleftrightarrow>
     (\<exists>err. url_Parse d rawurl = Inl err \<and> e = InvalidRepoURL rawurl err)
   \<or> (\<exists>u err. url_Parse d rawurl = Inr u \<and> uHost u \<noteq> []
          \<and> url_ParseQuery d (uRawQuery u) = Inl err \<and> e = InvalidURLQuery (uRawQuery u) err)
   \<or> (\<exists>u err. url_Parse d rawurl = Inr u \<and> uHost u = []
          \<and> homedir_Expand d (uPath u) = Inl err \<and> e = Passed err)"
  by (auto simp: ParseRepoRef_def Let_def split: sum.splits)

theorem ParseRepoRef_errors_witness:
  "ParseRepoRef example_deps ''https://github.com/foo/bar?revision=100%'' =
     Inl (InvalidURLQuery ''revision=100%'' (''invalid URL escape '' @ quote ''%''))"
proof -
  have p: "url_Parse example_deps ''https://github.com/foo/bar?revision=100%'' =
     Inr \<lparr>uScheme = ''https'', uOpaque = [], uUser = None, uHost = ''github.com'',
          uPath = ''/foo/bar'', uRawPath = [], uOmitHost = False, uForceQuery = False,
          uRawQuery = ''revision=100%'', uFragment = [], uRawFragment = []\<rparr>"
    by code_simp
  have q: "url_ParseQuery example_deps ''revision=100%''
      = Inl (''invalid URL escape '' @ quote ''%'')"
    by (simp add: example_deps_def go_deps_def go_ParseQuery_def Cut_def QueryUnescape_def
        unescape_def)
  from p q
    ParseRepoRef_errors [of example_deps "''https://github.com/foo/bar?revision=100%''"
      "InvalidURLQuery ''revision=100%'' (''invalid URL escape '' @ quote ''%'')"]
  show ?thesis by simp
qed

text \<open>
  C7. The cache path is a function of the source identity. Two locators that produce
  remote references with the same host, the same URL path and the same revision get the
  same path, whatever else differs between them (the scheme, the user, the fragment, the
  way the revision is written); the path is \<open>buildLocalCacheDir\<close> of the three. With
  \<open>s2 = s1\<close> this is: parsing a locator twice yields the same path. The same holds for
  \<open>ParseURL\<close> and the \<open>buildLocalCacheDir\<close> of package repository.
\<close>

theorem cache_path_deterministic:
  assumes "url_Parse d s1 = Inr u1" and "url_Parse d s2 = Inr u2"
    and "uHost u1 \<noteq> []" and "uHost u2 = uHost u1" and "uPath u2 = uPath u1"
    and "ParseRepoRef d s1 = Inr r1" and "ParseRepoRef d s2 = Inr r2"
    and "ParseURL d s1 = Inr r1'" and "ParseURL d s2 = Inr r2'"
    and "Revision r2 = Revision r1"
  shows "Path r2 = Path r1
       \<and> Path r1 = kickoff_buildLocalCacheDir d (uHost u1) (uPath u1) (Revision r1)
       \<and> Path r2' = Path r1'
       \<and> Path r1' = repository_buildLocalCacheDir d (uHost u1) (uPath u1) (Revision r1)"
  using assms
  by (auto simp: ParseRepoRef_def ParseURL_def Let_def RepoRef_zero_def split: sum.splits)

theorem cache_path_deterministic_witness:
  "ParseRepoRef example_deps ''https://github.com/foo/bar'' =
     Inr \<lparr>Name = [], URL = ''https://github.com/foo/bar'',
          Path = ''/home/u/.cache/kickoff/repositories/github.com/foo/bar@master'',
          Revision = ''master''\<rparr>
   \<and> ParseRepoRef example_deps ''ssh://git@github.com/foo/bar?revision=master#readme'' =
     Inr \<lparr>Name = [], URL = ''ssh://git@github.com/foo/bar#readme'',
          Path = ''/home/u/.cache/kickoff/repositories/github.com/foo/bar@master'',
          Revision = ''master''\<rparr>
   \<and> Path \<lparr>Name = [], URL = ''ssh://git@github.com/foo/bar#readme'',
          Path = ''/home/u/.cache/kickoff/repositories/github.com/foo/bar@master'',
          Revision = ''master''\<rparr>
     = Path \<lparr>Name = [], URL = ''https://github.com/foo/bar'',
          Path = ''/home/u/.cache/kickoff/repositories/github.com/foo/bar@master'',
          Revision = ''master''\<rparr>"
proof -
  have p1: "url_Parse example_deps ''https://github.com/foo/bar'' =
     Inr \<lparr>uScheme = ''https'', uOpaque = [], uUser = None, uHost = ''github.com'',
          uPath = ''/foo/bar'', uRawPath = [], uOmitHost = False, uForceQuery = False,
          uRawQuery = [], uFragment = [], uRawFragment = []\<rparr>"
    by code_simp
  have p2: "url_Parse example_deps ''ssh://git@github.com/foo/bar?revision=master#readme'' =
     Inr \<lparr>uScheme = ''ssh'', uOpaque = [], uUser = Some (''git'', None), uHost = ''github.com'',
          uPath = ''/foo/bar'', uRawPath = [], uOmitHost = False, uForceQuery = False,
          uRawQuery = ''revision=master'', uFragment = ''readme'', uRawFragment = []\<rparr>"
    by code_simp
  have r1: "ParseRepoRef example_deps ''https://github.com/foo/bar'' =
     Inr \<lparr>Name = [], URL = ''https://github.com/foo/bar'',
          Path = ''/home/u/.cache/kickoff/repositories/github.com/foo/bar@master'',
          Revision = ''master''\<rparr>"
    by code_simp
  have r2: "ParseRepoRef example_deps ''ssh://git@github.com/foo/bar?revision=master#readme'' =
     Inr \<lparr>Name = [], URL = ''ssh://git@github.com/foo/bar#readme'',
          Path = ''/home/u/.cache/kickoff/repositories/github.com/foo/bar@master'',
          Revision = ''master''\<rparr>"
    by code_simp
  have r1': "ParseURL example_deps ''https://github.com/foo/bar'' =
     Inr \<lparr>Name = [], URL = ''https://github.com/foo/bar'',
          Path = ''/home/u/.cache/kickoff/repositories/github.com/foo/bar@master'',
          Revision = ''master''\<rparr>"
    by code_simp
  have r2': "ParseURL example_deps ''ssh://git@github.com/foo/bar?revision=master#readme'' =
     Inr \<lparr>Name = [], URL = ''ssh://git@github.com/foo/bar#readme'',
          Path = ''/home/u/.cache/kickoff/repositories/github.com/foo/bar@master'',
          Revision = ''master''\<rparr>"
    by code_simp
  from cache_path_deterministic [OF p1 p2 _ _ _ r1 r2 r1' r2'] r1 r2
  show ?thesis by simp
qed

text \<open>
  C10, as stated, fails: \<open>String\<close> writes the revision as it is, and a revision with a
  byte that is special in a query does not come back. The locator
  \<open>https://github.com/foo/bar?revision=a%26b\<close> has the revision \<open>a&b\<close>; its reference
  prints as \<open>https://github.com/foo/bar?revision=a&b\<close>, which parses to the revision
  \<open>a\<close> and to another cache path.
\<close>

theorem String_roundtrip_fails:
  "ParseRepoRef example_deps ''https://github.com/foo/bar?revision=a%26b''
     = Inr \<lparr>Name = [], URL = ''https://github.com/foo/bar'',
            Path = ''/home/u/.cache/kickoff/repositories/github.com/foo/bar@a&b'',
            Revision = ''a&b''\<rparr>
   \<and> RepoRef_String \<lparr>Name = [], URL = ''https://github.com/foo/bar'',
            Path = ''/home/u/.cache/kickoff/repositories/github.com/foo/bar@a&b'',
            Revision = ''a&b''\<rparr> = ''https://github.com/foo/bar?revision=a&b''
   \<and> ParseRepoRef example_deps ''https://github.com/foo/bar?revision=a&b''
     = Inr \<lparr>Name = [], URL = ''https://github.com/foo/bar'',
            Path = ''/home/u/.cache/kickoff/repositories/github.com/foo/bar@a'',
            Revision = ''a''\<rparr>"
  by code_simp

text \<open>
  C10, amended. For a reference \<open>r\<close> returned by \<open>ParseRepoRef\<close>, \<open>String\<close> emits the
  bare path when \<open>r\<close> is local and the URL followed by \<open>?revision=\<close> and the revision
  when \<open>r\<close> is remote (a parsed remote reference always has a revision). Parsing that
  string returns \<open>r\<close> again whenever the library reads the string back as it was built:
  for a local reference, the path parses as a URL without a host whose path expands to
  the path of \<open>r\<close>; for a remote reference, the string parses to the URL that \<open>r\<close> was
  formatted from with the query \<open>revision=\<close> and the revision, and that query decodes to
  the revision of \<open>r\<close>.
\<close>

theorem String_roundtrip:
  assumes "url_Parse d rawurl = Inr u" and "ParseRepoRef d rawurl = Inr r"
  shows "(uHost u = [] \<longrightarrow>
            RepoRef_String r = Path r
          \<and> (url_Parse d (Path r) = Inr u' \<longrightarrow> uHost u' = [] \<longrightarrow>
               homedir_Expand d (uPath u') = Inr (Path r) \<longrightarrow>
               ParseRepoRef d (RepoRef_String r) = Inr r))
       \<and> (uHost u \<noteq> [] \<longrightarrow> URL r \<noteq> [] \<longrightarrow>
            RepoRef_String r = URL r @ ''?revision='' @ Revision r
          \<and> (url_Parse d (URL r @ ''?revision='' @ Revision r)
                 = Inr (u\<lparr>uRawQuery := ''revision='' @ Revision r\<rparr>) \<longrightarrow>
               url_ParseQuery d (''revision='' @ Revision r) = Inr query \<longrightarrow>
               query ''revision'' = Some (Revision r # vs) \<longrightarrow>
               ParseRepoRef d (RepoRef_String r) = Inr r))"
proof (cases "uHost u = []")
  case True
  with assms obtain path where "homedir_Expand d (uPath u) = Inr path"
    and r: "r = \<lparr>Name = [], URL = [], Path = path, Revision = []\<rparr>"
    by (auto simp: ParseRepoRef_def RepoRef_zero_def split: sum.splits)
  then show ?thesis using True
    by (auto simp: RepoRef_String_def ParseRepoRef_def RepoRef_zero_def)
next
  case False
  with assms obtain q where "url_ParseQuery d (uRawQuery u) = Inr q"
    and r: "r = \<lparr>Name = [], URL = url_String d (u\<lparr>uRawQuery := []\<rparr>),
                 Path = kickoff_buildLocalCacheDir d (uHost u) (uPath u) (query_revision q),
                 Revision = query_revision q\<rparr>"
    by (auto simp: ParseRepoRef_def RepoRef_zero_def Let_def split: sum.splits)
  have nonempty: "query_revision q \<noteq> []"
    by (simp add: query_revision_def Let_def)
  from r nonempty have rev: "Revision r \<noteq> []" by simp
  show ?thesis
  proof (intro conjI impI)
    assume "uHost u = []"
    with False show "RepoRef_String r = Path r" by simp
  next
    assume "uHost u = []"
    with False show "ParseRepoRef d (RepoRef_String r) = Inr r" by simp
  next
    assume "URL r \<noteq> []"
    with rev show "RepoRef_String r = URL r @ ''?revision='' @ Revision r"
      by (simp add: RepoRef_String_def)
  next
    assume url: "URL r \<noteq> []"
      and reread: "url_Parse d (URL r @ ''?revision='' @ Revision r)
                   = Inr (u\<lparr>uRawQuery := ''revision='' @ Revision r\<rparr>)"
      and qry: "url_ParseQuery d (''revision='' @ Revision r) = Inr query"
      and first: "query ''revision'' = Some (Revision r # vs)"
    from first rev have "query_revision query = Revision r"
      by (simp add: query_revision_def)
    moreover from url rev have "RepoRef_String r = URL r @ ''?revision='' @ Revision r"
      by (simp add: RepoRef_String_def)
    ultimately show "ParseRepoRef d (RepoRef_String r) = Inr r"
      using reread qry False r
      by (simp add: ParseRepoRef_def RepoRef_zero_def Let_def kickoff_buildLocalCacheDir_def)
  qed
qed

theorem String_roundtrip_witness:
  "ParseRepoRef example_deps ''HTTPS://github.com/foo/bar?x=1&revision=v1''
     = Inr \<lparr>Name = [], URL = ''https://github.com/foo/bar'',
            Path = ''/home/u/.cache/kickoff/repositories/github.com/foo/bar@v1'',
            Revision = ''v1''\<rparr>
   \<and> ParseRepoRef example_deps (RepoRef_String \<lparr>Name = [], URL = ''https://github.com/foo/bar'',
            Path = ''/home/u/.cache/kickoff/repositories/github.com/foo/bar@v1'',
            Revision = ''v1''\<rparr>)
     = Inr \<lparr>Name = [], URL = ''https://github.com/foo/bar'',
            Path = ''/home/u/.cache/kickoff/repositories/github.com/foo/bar@v1'',
            Revision = ''v1''\<rparr>
   \<and> ParseRepoRef example_deps ''~/skeletons''
     = Inr \<lparr>Name = [], URL = [], Path = ''/home/u/skeletons'', Revision = []\<rparr>
   \<and> ParseRepoRef example_deps (RepoRef_String
         \<lparr>Name = [], URL = [], Path = ''/home/u/skeletons'', Revision = []\<rparr>)
     = Inr \<lparr>Name = [], URL = [], Path = ''/home/u/skeletons'', Revision = []\<rparr>"
proof -
  let ?u = "\<lparr>uScheme = ''https'', uOpaque = [], uUser = None, uHost = ''github.com'',
          uPath = ''/foo/bar'', uRawPath = [], uOmitHost = False, uForceQuery = False,
          uRawQuery = ''x=1&revision=v1'', uFragment = [], uRawFragment = []\<rparr>"
  let ?r = "\<lparr>Name = [], URL = ''https://github.com/foo/bar'',
            Path = ''/home/u/.cache/kickoff/repositories/github.com/foo/bar@v1'',
            Revision = ''v1''\<rparr>"
  have p: "url_Parse example_deps ''HTTPS://github.com/foo/bar?x=1&revision=v1'' = Inr ?u"
    by code_simp
  have r: "ParseRepoRef example_deps ''HTTPS://github.com/foo/bar?x=1&revision=v1'' = Inr ?r"
    by code_simp
  have reread: "url_Parse example_deps ''https://github.com/foo/bar?revision=v1''
      = Inr (?u\<lparr>uRawQuery := ''revision=v1''\<rparr>)"
    by code_simp
  have q: "url_ParseQuery example_deps ''revision=v1'' = Inr [''revision'' \<mapsto> [''v1'']]"
    by (simp add: example_deps_def go_deps_def go_ParseQuery_def Cut_def QueryUnescape_def
        unescape_def)
  from String_roundtrip [OF p r, of _ "[''revision'' \<mapsto> [''v1'']]" "[]"] reread q
  have remote: "ParseRepoRef example_deps (RepoRef_String ?r) = Inr ?r"
    by (simp add: RepoRef_String_def)
  let ?v = "\<lparr>uScheme = [], uOpaque = [], uUser = None, uHost = [], uPath = ''~/skeletons'',
          uRawPath = [], uOmitHost = False, uForceQuery = False, uRawQuery = [],
          uFragment = [], uRawFragment = []\<rparr>"
  let ?l = "\<lparr>Name = [], URL = [], Path = ''/home/u/skeletons'', Revision = []\<rparr>"
  have p': "url_Parse example_deps ''~/skeletons'' = Inr ?v"
    by code_simp
  have r': "ParseRepoRef example_deps ''~/skeletons'' = Inr ?l"
    by code_simp
  have reread': "url_Parse example_deps ''/home/u/skeletons''
      = Inr (?v\<lparr>uPath := ''/home/u/skeletons''\<rparr>)"
    by code_simp
  have x: "homedir_Expand example_deps ''/home/u/skeletons'' = Inr ''/home/u/skeletons''"
    by code_simp
  from String_roundtrip [OF p' r', of "?v\<lparr>uPath := ''/home/u/skeletons''\<rparr>"] reread' x
  have local: "ParseRepoRef example_deps (RepoRef_String ?l) = Inr ?l"
    by (simp add: RepoRef_String_def)
  from r remote r' local show ?thesis by simp
qed

section \<open>The repository cache\<close>

lemma NewNamed_hit:
  "repoCache st (name, url) = Some repo \<Longrightarrow> NewNamed d c name url st = (Inr repo, st)"
  by (simp add: NewNamed_def)

text \<open>An entry of the cache is never removed and never replaced.\<close>

lemma NewNamed_keeps_entry:
  assumes "repoCache st k = Some r"
  shows "repoCache (snd (NewNamed d c name url st)) k = Some r"
proof (cases "repoCache st (name, url)")
  case (Some repo)
  then show ?thesis using assms by (simp add: NewNamed_def)
next
  case None
  then have "k \<noteq> (name, url)" using assms by auto
  then show ?thesis using assms None
    by (auto simp: NewNamed_def Let_def split: sum.splits)
qed

lemma NewNamed_calls_keeps_entry:
  "repoCache st k = Some r \<Longrightarrow> repoCache (NewNamed_calls d c ks st) k = Some r"
proof (induction ks arbitrary: st)
  case Nil
  then show ?case by simp
next
  case (Cons a ks)
  obtain name url where a: "a = (name, url)" by (cases a)
  from Cons.prems have "repoCache (snd (NewNamed d c name url st)) k = Some r"
    by (rule NewNamed_keeps_entry)
  then show ?case using Cons.IH a by simp
qed

lemma NewNamed_success_stored:
  assumes "NewNamed d c name url st = (Inr repo, st1)"
  shows "repoCache st1 (name, url) = Some repo"
  using assms
  by (auto simp: NewNamed_def Let_def split: option.splits sum.splits)

text \<open>
  C1, as stated, fails for a pair whose resolution fails: nothing is stored, so every
  call with the pair resolves and fetches again, and two calls need not return the same
  thing. With constructors whose first fetch fails, the first call for a pair returns the
  error and the second call for the same pair returns a repository, after two fetches.
  With constructors whose every fetch fails, three calls for one pair fetch three times
  and return the error each time.
\<close>

theorem NewNamed_refetches_after_failure:
  "fst (NewNamed example_deps flaky_constructors ''kickoff'' ''https://github.com/foo/bar''
         example_resolver)
     = Inl (Passed ''network unreachable'')
   \<and> fst (NewNamed example_deps flaky_constructors ''kickoff'' ''https://github.com/foo/bar''
         (snd (NewNamed example_deps flaky_constructors ''kickoff''
            ''https://github.com/foo/bar'' example_resolver)))
     = Inr ''/home/u/.cache/kickoff/repositories/github.com/foo/bar@master''
   \<and> world (snd (NewNamed example_deps flaky_constructors ''kickoff''
         ''https://github.com/foo/bar''
         (snd (NewNamed example_deps flaky_constructors ''kickoff''
            ''https://github.com/foo/bar'' example_resolver))))
     = 2
   \<and> world (NewNamed_calls example_deps failing_constructors
         [(''kickoff'', ''https://github.com/foo/bar''),
          (''kickoff'', ''https://github.com/foo/bar''),
          (''kickoff'', ''https://github.com/foo/bar'')] example_resolver)
     = 3
   \<and> fst (NewNamed example_deps failing_constructors ''kickoff'' ''https://github.com/foo/bar''
         (NewNamed_calls example_deps failing_constructors
            [(''kickoff'', ''https://github.com/foo/bar''),
             (''kickoff'', ''https://github.com/foo/bar'')] example_resolver))
     = Inl (Passed ''network unreachable'')"
  by code_simp

text \<open>
  C1, amended. Once \<open>NewNamed\<close> has returned a repository for a pair of name and
  locator, every later call with that pair returns the same instance, whatever calls of
  \<open>NewNamed\<close> were made in between: the successful call stores the instance under the
  pair, and a later call finds it there. The later call leaves the cache and the world as
  they are, so nothing is fetched, and its result does not depend on the parser or on the
  constructors (\<open>d'\<close> and \<open>c'\<close> are arbitrary), so the locator is not parsed again and
  no repository is constructed. Hence at most one successful resolution, with its fetch,
  happens for a pair in a run; a call that fails stores nothing, and the pair is resolved
  again by the next call.
\<close>

theorem NewNamed_cached:
  assumes "NewNamed d c name url st = (Inr repo, st1)"
    and "st2 = NewNamed_calls d c ks st1"
  shows "repoCache st1 (name, url) = Some repo
       \<and> NewNamed d' c' name url st2 = (Inr repo, st2)"
proof
  from assms(1) show stored: "repoCache st1 (name, url) = Some repo"
    by (rule NewNamed_success_stored)
  then have "repoCache st2 (name, url) = Some repo"
    unfolding assms(2) by (rule NewNamed_calls_keeps_entry)
  then show "NewNamed d' c' name url st2 = (Inr repo, st2)" by (rule NewNamed_hit)
qed

theorem NewNamed_cached_witness:
  "fst (NewNamed example_deps example_constructors ''kickoff'' ''https://github.com/foo/bar''
         example_resolver)
     = Inr ''/home/u/.cache/kickoff/repositories/github.com/foo/bar@master''
   \<and> world (snd (NewNamed example_deps example_constructors ''kickoff''
         ''https://github.com/foo/bar'' example_resolver)) = 1
   \<and> fst (NewNamed no_home_deps example_constructors ''kickoff'' ''https://github.com/foo/bar''
         (NewNamed_calls example_deps example_constructors
            [(''local'', ''~/skeletons''), (''other'', ''https://github.com/foo/baz'')]
            (snd (NewNamed example_deps example_constructors ''kickoff''
               ''https://github.com/foo/bar'' example_resolver))))
     = Inr ''/home/u/.cache/kickoff/repositories/github.com/foo/bar@master''
   \<and> world (snd (NewNamed no_home_deps example_constructors ''kickoff''
         ''https://github.com/foo/bar''
         (NewNamed_calls example_deps example_constructors
            [(''local'', ''~/skeletons''), (''other'', ''https://github.com/foo/baz'')]
            (snd (NewNamed example_deps example_constructors ''kickoff''
               ''https://github.com/foo/bar'' example_resolver)))))
     = 2"
proof -
  let ?first = "NewNamed example_deps example_constructors ''kickoff''
    ''https://github.com/foo/bar'' example_resolver"
  let ?st2 = "NewNamed_calls example_deps example_constructors
    [(''local'', ''~/skeletons''), (''other'', ''https://github.com/foo/baz'')] (snd ?first)"
  have r: "fst ?first = Inr ''/home/u/.cache/kickoff/repositories/github.com/foo/bar@master''"
    by code_simp
  have w1: "world (snd ?first) = 1"
    by code_simp
  have w2: "world ?st2 = 2"
    by code_simp
  from r have first:
    "?first = (Inr ''/home/u/.cache/kickoff/repositories/github.com/foo/bar@master'', snd ?first)"
    by (simp add: prod_eq_iff)
  from NewNamed_cached [OF first refl, of no_home_deps example_constructors]
  have "NewNamed no_home_deps example_constructors ''kickoff'' ''https://github.com/foo/bar'' ?st2
      = (Inr ''/home/u/.cache/kickoff/repositories/github.com/foo/bar@master'', ?st2)"
    by (rule conjunct2)
  with r w1 w2 show ?thesis by simp
qed

text \<open>
  C9. When \<open>NewNamed\<close> returns an error for a pair of name and locator, the cache is
  left as it was and has no entry for the pair, so nothing failed or partial is stored. A
  later call with the pair therefore resolves in full again: when it returns a
  repository, the locator was parsed and the repository was made by the constructor.
\<close>

theorem NewNamed_error_keeps_cache:
  assumes "NewNamed d c name url st = (Inl err, st')"
  shows "repoCache st' = repoCache st
       \<and> repoCache st' (name, url) = None
       \<and> (NewNamed d c name url st' = (Inr repo, st'') \<longrightarrow>
            (\<exists>info. ParseURL d url = Inr info \<and>
               (if IsRemote (info\<lparr>Name := name\<rparr>)
                then NewRemoteRepository c (info\<lparr>Name := name\<rparr>) (world st')
                else NewLocalRepository c (info\<lparr>Name := name\<rparr>) (world st'))
                 = (Inr repo, world st'')))"
proof (intro conjI impI)
  show "repoCache st' = repoCache st" using assms
    by (auto simp: NewNamed_def Let_def split: option.splits sum.splits)
  show none: "repoCache st' (name, url) = None" using assms
    by (auto simp: NewNamed_def Let_def split: option.splits sum.splits)
  assume "NewNamed d c name url st' = (Inr repo, st'')"
  with none show "\<exists>info. ParseURL d url = Inr info \<and>
             (if IsRemote (info\<lparr>Name := name\<rparr>)
              then NewRemoteRepository c (info\<lparr>Name := name\<rparr>) (world st')
              else NewLocalRepository c (info\<lparr>Name := name\<rparr>) (world st'))
               = (Inr repo, world st'')"
    by (auto simp: NewNamed_def Let_def prod_eq_iff split: option.splits sum.splits if_splits)
qed

theorem NewNamed_error_keeps_cache_witness:
  "fst (NewNamed example_deps flaky_constructors ''kickoff'' ''https://github.com/foo/bar''
         example_resolver)
     = Inl (Passed ''network unreachable'')
   \<and> repoCache (snd (NewNamed example_deps flaky_constructors ''kickoff''
         ''https://github.com/foo/bar'' example_resolver))
     = repoCache example_resolver
   \<and> repoCache (snd (NewNamed example_deps flaky_constructors ''kickoff''
         ''https://github.com/foo/bar'' example_resolver)) (''kickoff'', ''https://github.com/foo/bar'')
     = None
   \<and> fst (NewNamed example_deps flaky_constructors ''kickoff'' ''https://github.com/foo/bar''
         (snd (NewNamed example_deps flaky_constructors ''kickoff''
            ''https://github.com/foo/bar'' example_resolver)))
     = Inr ''/home/u/.cache/kickoff/repositories/github.com/foo/bar@master''
   \<and> (\<exists>info. ParseURL example_deps ''https://github.com/foo/bar'' = Inr info
        \<and> NewRemoteRepository flaky_constructors (info\<lparr>Name := ''kickoff''\<rparr>) 1
          = (Inr ''/home/u/.cache/kickoff/repositories/github.com/foo/bar@master'', 2))"
proof -
  let ?first = "NewNamed example_deps flaky_constructors ''kickoff''
    ''https://github.com/foo/bar'' example_resolver"
  let ?second = "NewNamed example_deps flaky_constructors ''kickoff''
    ''https://github.com/foo/bar'' (snd ?first)"
  have e: "fst ?first = Inl (Passed ''network unreachable'')"
    by code_simp
  have r: "fst ?second = Inr ''/home/u/.cache/kickoff/repositories/github.com/foo/bar@master''"
    by code_simp
  have w1: "world (snd ?first) = 1" and w2: "world (snd ?second) = 2"
    by code_simp+
  have p: "ParseURL example_deps ''https://github.com/foo/bar'' =
     Inr \<lparr>Name = [], URL = ''https://github.com/foo/bar'',
          Path = ''/home/u/.cache/kickoff/repositories/github.com/foo/bar@master'',
          Revision = ''master''\<rparr>"
    by code_simp
  from e have failed: "?first = (Inl (Passed ''network unreachable''), snd ?first)"
    by (simp add: prod_eq_iff)
  from r have again:
    "?second = (Inr ''/home/u/.cache/kickoff/repositories/github.com/foo/bar@master'', snd ?second)"
    by (simp add: prod_eq_iff)
  note k = NewNamed_error_keeps_cache [OF failed,
      of "''/home/u/.cache/kickoff/repositories/github.com/foo/bar@master''" "snd ?second"]
  from k have c1: "repoCache (snd ?first) = repoCache example_resolver"
    and c2: "repoCache (snd ?first) (''kickoff'', ''https://github.com/foo/bar'') = None"
    by blast+
  from k again have "\<exists>info. ParseURL example_deps ''https://github.com/foo/bar'' = Inr info \<and>
     (if IsRemote (info\<lparr>Name := ''kickoff''\<rparr>)
      then NewRemoteRepository flaky_constructors (info\<lparr>Name := ''kickoff''\<rparr>) (world (snd ?first))
      else NewLocalRepository flaky_constructors (info\<lparr>Name := ''kickoff''\<rparr>) (world (snd ?first)))
       = (Inr ''/home/u/.cache/kickoff/repositories/github.com/foo/bar@master'', world (snd ?second))"
    by blast
  with p w1 w2 have "\<exists>info. ParseURL example_deps ''https://github.com/foo/bar'' = Inr info
        \<and> NewRemoteRepository flaky_constructors (info\<lparr>Name := ''kickoff''\<rparr>) 1
          = (Inr ''/home/u/.cache/kickoff/repositories/github.com/foo/bar@master'', 2)"
    by (simp add: IsRemote_def)
  with e r c1 c2 show ?thesis by simp
qed

section \<open>Merging\<close>

lemma map_of_put: "map_of (put k v m) = (map_of m)(k \<mapsto> v)"
  by (induction m) auto

lemma merge_values_other:
  "key \<notin> fst ` set b \<Longrightarrow> map_of (merge_values a b) key = map_of a key"
proof (induction b arbitrary: a)
  case Nil
  then show ?case by simp
next
  case (Cons kv b)
  obtain k v where kv: "kv = (k, v)" by (cases kv)
  with Cons.prems have "k \<noteq> key" and "key \<notin> fst ` set b" by auto
  then show ?case using Cons.IH kv by (simp add: map_of_put)
qed

lemma merge_values_key:
  assumes "distinct (map fst b)" and "map_of b key = Some v"
  shows "map_of (merge_values a b) key =
           Some (case map_of a key of None \<Rightarrow> v | Some earlier \<Rightarrow> merge_value earlier v)"
  using assms
proof (induction b arbitrary: a)
  case Nil
  then show ?case by simp
next
  case (Cons kv b)
  obtain k w where kv: "kv = (k, w)" by (cases kv)
  show ?case
  proof (cases "k = key")
    case True
    with Cons.prems kv have "w = v" and "key \<notin> fst ` set b" by auto
    then show ?thesis using kv True by (simp add: merge_values_other map_of_put)
  next
    case False
    with Cons.prems kv have "distinct (map fst b)" and "map_of b key = Some v" by auto
    from Cons.IH [OF this] show ?thesis using kv False by (simp add: map_of_put)
  qed
qed

lemma merge_value_cases:
  "merge_value earlier v = v
   \<or> (\<exists>a b. earlier = VMap a \<and> v = VMap b \<and> merge_value earlier v = VMap (merge_values a b))"
  by (cases "(earlier, v)" rule: merge_value.cases) auto

lemma merge_into_other:
  assumes "merge_into acc ss = Inr merged" and "\<forall>t \<in> set ss. key \<notin> fst ` set (Values t)"
  shows "map_of (Values merged) key = map_of (Values acc) key"
  using assms
proof (induction ss arbitrary: acc)
  case Nil
  then show ?case by simp
next
  case (Cons s ss)
  then show ?case
    by (auto split: sum.splits simp: merge_values_other)
qed

lemma merge_into_append:
  "merge_into acc (xs @ ys) =
     (case merge_into acc xs of Inl err \<Rightarrow> Inl err | Inr acc' \<Rightarrow> merge_into acc' ys)"
  by (induction xs arbitrary: acc) (auto split: sum.splits)

lemma merge_into_last:
  assumes "merge_into acc (before @ [s] @ after) = Inr merged"
    and "distinct (map fst (Values s))" and "map_of (Values s) key = Some v"
    and "\<forall>t \<in> set after. key \<notin> fst ` set (Values t)"
  shows "map_of (Values merged) key = Some v
       \<or> (\<exists>a b. v = VMap b \<and> map_of (Values merged) key = Some (VMap (merge_values a b)))"
proof -
  from assms(1) obtain acc1 where "merge_into acc before = Inr acc1"
    and r1: "merge_into acc1 ([s] @ after) = Inr merged"
    by (auto simp: merge_into_append split: sum.splits)
  from r1 obtain files where
    r2: "merge_into \<lparr>Values = merge_values (Values acc1) (Values s), Files = files,
                     SourceRepo = None\<rparr> after = Inr merged"
    by (auto split: sum.splits)
  from merge_into_other [OF r2 assms(4)]
  have "map_of (Values merged) key = map_of (merge_values (Values acc1) (Values s)) key"
    by simp
  also have "\<dots> = Some (case map_of (Values acc1) key of
                          None \<Rightarrow> v | Some earlier \<Rightarrow> merge_value earlier v)"
    by (rule merge_values_key [OF assms(2,3)])
  finally have m: "map_of (Values merged) key =
     Some (case map_of (Values acc1) key of None \<Rightarrow> v | Some earlier \<Rightarrow> merge_value earlier v)" .
  show ?thesis
  proof (cases "map_of (Values acc1) key")
    case None
    with m show ?thesis by simp
  next
    case (Some earlier)
    with m merge_value_cases [of earlier v] show ?thesis by auto
  qed
qed

text \<open>
  C4. Merging is sensitive to the order, and the later value wins. In general: let \<open>s\<close>
  be the last skeleton of the merged sequence that defines \<open>key\<close>, with the value \<open>v\<close>.
  When the merge succeeds, the merged values bind \<open>key\<close> to \<open>v\<close>, or, when \<open>v\<close> is a map
  that met an earlier map, to the merge of the two maps, in which the entries of \<open>v\<close> win
  in the same way; a value that is not a map always replaces what was there. For the
  skeletons \<open>A\<close> with the values \<open>{key: 1}\<close> and \<open>B\<close> with the values \<open>{key: 2}\<close>
  the merge of \<open>[A, B]\<close> binds \<open>key\<close> to 2 and the merge of \<open>[B, A]\<close> binds it to 1.
\<close>

theorem MergeSkeletons_last_wins:
  "(MergeSkeletons (before @ [s] @ after) = Inr merged \<longrightarrow>
      distinct (map fst (Values s)) \<longrightarrow> map_of (Values s) key = Some v \<longrightarrow>
      (\<forall>t \<in> set after. key \<notin> fst ` set (Values t)) \<longrightarrow>
        (map_of (Values merged) key = Some v
         \<or> (\<exists>a b. v = VMap b \<and> map_of (Values merged) key = Some (VMap (merge_values a b))))
        \<and> ((\<forall>b. v \<noteq> VMap b) \<longrightarrow> map_of (Values merged) key = Some v))
   \<and> (Values A = [(key, VInt 1)] \<longrightarrow> Values B = [(key, VInt 2)] \<longrightarrow>
      MergeSkeletons [A, B] = Inr ab \<longrightarrow> MergeSkeletons [B, A] = Inr ba \<longrightarrow>
        map_of (Values ab) key = Some (VInt 2) \<and> map_of (Values ba) key = Some (VInt 1))"
proof (intro conjI impI)
  assume m: "MergeSkeletons (before @ [s] @ after) = Inr merged"
    and d: "distinct (map fst (Values s))" and v: "map_of (Values s) key = Some v"
    and l: "\<forall>t \<in> set after. key \<notin> fst ` set (Values t)"
  from m have "merge_into \<lparr>Values = [], Files = [], SourceRepo = None\<rparr> (before @ [s] @ after)
      = Inr merged"
    by (simp add: MergeSkeletons_def)
  from merge_into_last [OF this d v l]
  show main: "map_of (Values merged) key = Some v
      \<or> (\<exists>a b. v = VMap b \<and> map_of (Values merged) key = Some (VMap (merge_values a b)))" .
  assume "\<forall>b. v \<noteq> VMap b"
  with main show "map_of (Values merged) key = Some v" by auto
next
  assume "Values A = [(key, VInt 1)]" and "Values B = [(key, VInt 2)]"
    and "MergeSkeletons [A, B] = Inr ab"
  then show "map_of (Values ab) key = Some (VInt 2)"
    by (auto simp: MergeSkeletons_def split: sum.splits)
next
  assume "Values A = [(key, VInt 1)]" and "Values B = [(key, VInt 2)]"
    and "MergeSkeletons [B, A] = Inr ba"
  then show "map_of (Values ba) key = Some (VInt 1)"
    by (auto simp: MergeSkeletons_def split: sum.splits)
qed

theorem MergeSkeletons_last_wins_witness:
  "MergeSkeletons [skeleton_A, skeleton_B]
     = Inr \<lparr>Values = [(''key'', VInt 2)], Files = [], SourceRepo = None\<rparr>
   \<and> MergeSkeletons [skeleton_B, skeleton_A]
     = Inr \<lparr>Values = [(''key'', VInt 1)], Files = [], SourceRepo = None\<rparr>
   \<and> map_of (Values \<lparr>Values = [(''key'', VInt 2)], Files = [], SourceRepo = None\<rparr>) ''key''
     = Some (VInt 2)
   \<and> map_of (Values \<lparr>Values = [(''key'', VInt 1)], Files = [], SourceRepo = None\<rparr>) ''key''
     = Some (VInt 1)"
proof -
  have ab: "MergeSkeletons [skeleton_A, skeleton_B]
     = Inr \<lparr>Values = [(''key'', VInt 2)], Files = [], SourceRepo = None\<rparr>"
    by code_simp
  have ba: "MergeSkeletons [skeleton_B, skeleton_A]
     = Inr \<lparr>Values = [(''key'', VInt 1)], Files = [], SourceRepo = None\<rparr>"
    by code_simp
  have a: "Values skeleton_A = [(''key'', VInt 1)]" and b: "Values skeleton_B = [(''key'', VInt 2)]"
    by (simp_all add: skeleton_A_def skeleton_B_def)
  have ab': "MergeSkeletons ([skeleton_A] @ [skeleton_B] @ []) = Inr \<lparr>Values = [(''key'', VInt 2)], Files = [], SourceRepo = None\<rparr>"
    using ab by simp
  from MergeSkeletons_last_wins [of "[skeleton_A]" skeleton_B "[]" _ "''key''" "VInt 2"
      skeleton_A skeleton_B] ab' ab ba a b
  show ?thesis by simp
qed

section \<open>The conflict policy\<close>

text \<open>
  C3. The conflict policy for a file entry whose target exists on the filesystem of the
  configuration. When a pattern of \<open>SkipFiles\<close> matches the target or an ancestor, the
  action recorded is \<open>Skip\<close> and the filesystem is left as it is, whatever \<open>Overwrite\<close>
  and \<open>OverwriteFiles\<close> are and whatever the filesystem holds (\<open>fs'\<close> is arbitrary: the
  target is not looked up). Otherwise: when a pattern of \<open>OverwriteFiles\<close> matches the
  target or an ancestor, the action is \<open>OverwriteFile\<close> and the file is written with the
  content of the entry; else when \<open>Overwrite\<close> is set, the action is \<open>Overwrite\<close> and
  the file is written; else the action is \<open>SkipExisting\<close> and the filesystem is left as
  it is.
\<close>

theorem create_entry_conflict_policy:
  assumes "\<not> IsDir e" and "target = go_Join [outputDir, RelativePath e]"
    and "fs target = Some existing"
  shows "(matches_any pd (SkipFiles config) target \<longrightarrow>
            create_entry pd (config\<lparr>Overwrite := ow, OverwriteFiles := owf\<rparr>) vals outputDir e
                (fs', result)
              = Inr (fs', record_action target ActionTypeSkip result))
       \<and> (\<not> matches_any pd (SkipFiles config) target \<longrightarrow>
            matches_any pd (OverwriteFiles config) target \<longrightarrow>
            entry_content pd config vals e = Inr bytes \<longrightarrow>
            create_entry pd config vals outputDir e (fs, result)
              = Inr (fs(target \<mapsto> RegularFile bytes (Mode e)),
                     record_action target ActionTypeOverwriteFile result))
       \<and> (\<not> matches_any pd (SkipFiles config) target \<longrightarrow>
            \<not> matches_any pd (OverwriteFiles config) target \<longrightarrow>
            Overwrite config \<longrightarrow>
            entry_content pd config vals e = Inr bytes \<longrightarrow>
            create_entry pd config vals outputDir e (fs, result)
              = Inr (fs(target \<mapsto> RegularFile bytes (Mode e)),
                     record_action target ActionTypeOverwrite result))
       \<and> (\<not> matches_any pd (SkipFiles config) target \<longrightarrow>
            \<not> matches_any pd (OverwriteFiles config) target \<longrightarrow>
            \<not> Overwrite config \<longrightarrow>
            create_entry pd config vals outputDir e (fs, result)
              = Inr (fs, record_action target ActionTypeSkipExisting result))"
  using assms
  by (simp add: create_entry_def materialize_def Let_def)

theorem create_entry_conflict_policy_witness:
  "create_entry example_project_deps
       (example_config\<lparr>SkipFiles := [''/out/docs'']\<rparr>
          \<lparr>Overwrite := True, OverwriteFiles := [''/out/docs/README.md'']\<rparr>)
       [] ''/out'' example_entry (example_fs, example_result)
     = Inr (example_fs, record_action ''/out/docs/README.md'' ActionTypeSkip example_result)
   \<and> create_entry example_project_deps
       (example_config\<lparr>OverwriteFiles := [''/out/docs/README.md'']\<rparr>)
       [] ''/out'' example_entry (example_fs, example_result)
     = Inr (example_fs(''/out/docs/README.md'' \<mapsto> RegularFile ''new'' 420),
            record_action ''/out/docs/README.md'' ActionTypeOverwriteFile example_result)
   \<and> create_entry example_project_deps (example_config\<lparr>Overwrite := True\<rparr>)
       [] ''/out'' example_entry (example_fs, example_result)
     = Inr (example_fs(''/out/docs/README.md'' \<mapsto> RegularFile ''new'' 420),
            record_action ''/out/docs/README.md'' ActionTypeOverwrite example_result)
   \<and> create_entry example_project_deps example_config
       [] ''/out'' example_entry (example_fs, example_result)
     = Inr (example_fs, record_action ''/out/docs/README.md'' ActionTypeSkipExisting example_result)"
proof -
  let ?t = "''/out/docs/README.md''"
  have isfile: "\<not> IsDir example_entry" and mode: "Mode example_entry = 420"
    by (simp_all add: example_entry_def)
  have target: "?t = go_Join [''/out'', RelativePath example_entry]"
    by code_simp
  have present: "example_fs ?t = Some (RegularFile ''old'' 420)"
    by (simp add: example_fs_def)
  note policy = create_entry_conflict_policy [where fs = example_fs and target = ?t
      and e = example_entry and outputDir = "''/out''", OF isfile target present]
  let ?c1 = "example_config\<lparr>SkipFiles := [''/out/docs'']\<rparr>"
  let ?c2 = "example_config\<lparr>OverwriteFiles := [''/out/docs/README.md'']\<rparr>"
  let ?c3 = "example_config\<lparr>Overwrite := True\<rparr>"
  have skip: "matches_any example_project_deps (SkipFiles ?c1) ?t"
    by code_simp
  have no_skip: "\<not> matches_any example_project_deps (SkipFiles ?c2) ?t"
    "\<not> matches_any example_project_deps (SkipFiles ?c3) ?t"
    "\<not> matches_any example_project_deps (SkipFiles example_config) ?t"
    by code_simp+
  have owf: "matches_any example_project_deps (OverwriteFiles ?c2) ?t"
    by code_simp
  have no_owf: "\<not> matches_any example_project_deps (OverwriteFiles ?c3) ?t"
    "\<not> matches_any example_project_deps (OverwriteFiles example_config) ?t"
    by code_simp+
  have ow: "Overwrite ?c3" "\<not> Overwrite example_config"
    by (simp_all add: example_config_def)
  have content: "entry_content example_project_deps c [] example_entry = Inr ''new''" for c
    by (simp add: entry_content_def example_project_deps_def example_entry_def)
  have 1: "create_entry example_project_deps
       (?c1\<lparr>Overwrite := True, OverwriteFiles := [''/out/docs/README.md'']\<rparr>)
       [] ''/out'' example_entry (example_fs, example_result)
     = Inr (example_fs, record_action ?t ActionTypeSkip example_result)"
    using policy [of example_project_deps ?c1] skip by blast
  have 2: "create_entry example_project_deps ?c2
       [] ''/out'' example_entry (example_fs, example_result)
     = Inr (example_fs(?t \<mapsto> RegularFile ''new'' 420),
            record_action ?t ActionTypeOverwriteFile example_result)"
    using policy [of example_project_deps ?c2 _ _ "[]" _ _ "''new''"] no_skip(1) owf content mode
    by simp
  have 3: "create_entry example_project_deps ?c3
       [] ''/out'' example_entry (example_fs, example_result)
     = Inr (example_fs(?t \<mapsto> RegularFile ''new'' 420),
            record_action ?t ActionTypeOverwrite example_result)"
    using policy [of example_project_deps ?c3 _ _ "[]" _ _ "''new''"] no_skip(2) no_owf(1) ow(1)
      content mode
    by simp
  have 4: "create_entry example_project_deps example_config
       [] ''/out'' example_entry (example_fs, example_result)
     = Inr (example_fs, record_action ?t ActionTypeSkipExisting example_result)"
    using policy [of example_project_deps example_config _ _ "[]"] no_skip(3) no_owf(2) ow(2)
    by simp
  from 1 2 3 4 show ?thesis by simp
qed

end
